theory Spec2Isabelle
  imports Complex_Main
begin

section \<open>JavaScript numbers\<close>

text \<open>
  The program of \<^verbatim>\<open>src/code/src/game.ts\<close> computes with JavaScript numbers. A number
  is modelled as an exact real, or one of the three special values of IEEE 754. The
  rounding of binary64 and the sign of zero are not part of the model: every zero is
  the positive zero, which is the zero that \<^verbatim>\<open>x - x\<close> and \<^verbatim>\<open>0 / 1000\<close> produce.
\<close>

datatype jsnum = Fin real | PosInf | NegInf | NaN

fun js_sub :: "jsnum \<Rightarrow> jsnum \<Rightarrow> jsnum" where
  "js_sub NaN _ = NaN"
| "js_sub _ NaN = NaN"
| "js_sub (Fin a) (Fin b) = Fin (a - b)"
| "js_sub (Fin a) PosInf = NegInf"
| "js_sub (Fin a) NegInf = PosInf"
| "js_sub PosInf PosInf = NaN"
| "js_sub PosInf _ = PosInf"
| "js_sub NegInf NegInf = NaN"
| "js_sub NegInf _ = NegInf"

fun js_mul :: "jsnum \<Rightarrow> jsnum \<Rightarrow> jsnum" where
  "js_mul NaN _ = NaN"
| "js_mul _ NaN = NaN"
| "js_mul (Fin a) (Fin b) = Fin (a * b)"
| "js_mul (Fin a) PosInf = (if a = 0 then NaN else if 0 < a then PosInf else NegInf)"
| "js_mul (Fin a) NegInf = (if a = 0 then NaN else if 0 < a then NegInf else PosInf)"
| "js_mul PosInf (Fin b) = (if b = 0 then NaN else if 0 < b then PosInf else NegInf)"
| "js_mul NegInf (Fin b) = (if b = 0 then NaN else if 0 < b then NegInf else PosInf)"
| "js_mul PosInf PosInf = PosInf"
| "js_mul PosInf NegInf = NegInf"
| "js_mul NegInf PosInf = NegInf"
| "js_mul NegInf NegInf = PosInf"

text \<open>
  Division never raises in JavaScript: a non-zero number divided by zero is an infinity
  and \<^verbatim>\<open>0 / 0\<close> is \<^verbatim>\<open>NaN\<close>.
\<close>

fun js_div :: "jsnum \<Rightarrow> jsnum \<Rightarrow> jsnum" where
  "js_div NaN _ = NaN"
| "js_div _ NaN = NaN"
| "js_div (Fin a) (Fin b) =
     (if b \<noteq> 0 then Fin (a / b)
      else if a = 0 then NaN
      else if 0 < a then PosInf else NegInf)"
| "js_div (Fin a) PosInf = Fin 0"
| "js_div (Fin a) NegInf = Fin 0"
| "js_div PosInf (Fin b) = (if 0 \<le> b then PosInf else NegInf)"
| "js_div NegInf (Fin b) = (if 0 \<le> b then NegInf else PosInf)"
| "js_div PosInf _ = NaN"
| "js_div NegInf _ = NaN"

text \<open>\<^verbatim>\<open>Math.min\<close> and \<^verbatim>\<open>Math.max\<close> return \<^verbatim>\<open>NaN\<close> as soon as an argument is \<^verbatim>\<open>NaN\<close>.\<close>

fun Math_min :: "jsnum \<Rightarrow> jsnum \<Rightarrow> jsnum" where
  "Math_min NaN _ = NaN"
| "Math_min _ NaN = NaN"
| "Math_min NegInf _ = NegInf"
| "Math_min _ NegInf = NegInf"
| "Math_min PosInf y = y"
| "Math_min x PosInf = x"
| "Math_min (Fin a) (Fin b) = Fin (min a b)"

fun Math_max :: "jsnum \<Rightarrow> jsnum \<Rightarrow> jsnum" where
  "Math_max NaN _ = NaN"
| "Math_max _ NaN = NaN"
| "Math_max PosInf _ = PosInf"
| "Math_max _ PosInf = PosInf"
| "Math_max NegInf y = y"
| "Math_max x NegInf = x"
| "Math_max (Fin a) (Fin b) = Fin (max a b)"

text \<open>
  Reading an array outside its bounds does not raise either: the value read is
  \<^verbatim>\<open>undefined\<close>, which \<^verbatim>\<open>Math.round\<close> converts to \<^verbatim>\<open>NaN\<close>. \<^verbatim>\<open>Math.round\<close>
  rounds a half towards positive infinity.
\<close>

datatype jsval = Undefined | Num jsnum

definition js_index :: "jsnum list \<Rightarrow> int \<Rightarrow> jsval" where
  "js_index xs i = (if 0 \<le> i \<and> i < int (length xs) then Num (xs ! nat i) else Undefined)"

fun Math_round :: "jsval \<Rightarrow> jsnum" where
  "Math_round Undefined = NaN"
| "Math_round (Num (Fin a)) = Fin (of_int \<lfloor>a + 1 / 2\<rfloor>)"
| "Math_round (Num v) = v"

text \<open>
  A template literal is kept as its parts: the literal text and the numbers that are
  interpolated, whose conversion to decimal digits is left to the platform.
\<close>

datatype part = Lit string | NumToString jsnum

section \<open>The 2D context of the FPS canvas\<close>

text \<open>
  The calls that \<^verbatim>\<open>drawFPSGraph\<close> makes on \<^verbatim>\<open>fpsContext\<close>, in program order. An
  assignment to a property of the context is a call of its setter.
\<close>

datatype ctx_call =
    ClearRect jsnum jsnum jsnum jsnum
  | SetFillStyle string
  | FillRect jsnum jsnum jsnum jsnum
  | SetStrokeStyle string
  | BeginPath
  | MoveTo jsnum jsnum
  | LineTo jsnum jsnum
  | Stroke
  | SetFont string
  | FillText "part list" jsnum jsnum

text \<open>
  The canvas itself belongs to the platform. Its model keeps the size of the canvas, the
  drawing state that survives from one call to the next (the two styles, the font and
  the current path) and what has been painted since the canvas was last cleared as a
  whole. \<^verbatim>\<open>clearRect\<close> over the whole canvas erases everything painted before.
\<close>

datatype seg = SegMove jsnum jsnum | SegLine jsnum jsnum

datatype paint =
    Cleared jsnum jsnum jsnum jsnum
  | FilledRect string jsnum jsnum jsnum jsnum
  | Stroked string "seg list"
  | FilledText string string "part list" jsnum jsnum

record canvas2d =
  cv_width :: int
  cv_height :: int
  strokeStyle :: string
  fillStyle :: string
  font :: string
  path :: "seg list"
  painted :: "paint list"

fun ctx_exec :: "canvas2d \<Rightarrow> ctx_call \<Rightarrow> canvas2d" where
  "ctx_exec c (ClearRect x y w h) =
     (if x = Fin 0 \<and> y = Fin 0 \<and> w = Fin (of_int (cv_width c)) \<and> h = Fin (of_int (cv_height c))
      then c\<lparr>painted := []\<rparr>
      else c\<lparr>painted := painted c @ [Cleared x y w h]\<rparr>)"
| "ctx_exec c (SetFillStyle v) = c\<lparr>fillStyle := v\<rparr>"
| "ctx_exec c (FillRect x y w h) = c\<lparr>painted := painted c @ [FilledRect (fillStyle c) x y w h]\<rparr>"
| "ctx_exec c (SetStrokeStyle v) = c\<lparr>strokeStyle := v\<rparr>"
| "ctx_exec c BeginPath = c\<lparr>path := []\<rparr>"
| "ctx_exec c (MoveTo x y) = c\<lparr>path := path c @ [SegMove x y]\<rparr>"
| "ctx_exec c (LineTo x y) = c\<lparr>path := path c @ [SegLine x y]\<rparr>"
| "ctx_exec c Stroke = c\<lparr>painted := painted c @ [Stroked (strokeStyle c) (path c)]\<rparr>"
| "ctx_exec c (SetFont v) = c\<lparr>font := v\<rparr>"
| "ctx_exec c (FillText t x y) =
     c\<lparr>painted := painted c @ [FilledText (fillStyle c) (font c) t x y]\<rparr>"

definition ctx_run :: "canvas2d \<Rightarrow> ctx_call list \<Rightarrow> canvas2d" where
  "ctx_run c cs = foldl ctx_exec c cs"

section \<open>The state of the module\<close>

text \<open>
  The module-level variables of \<^verbatim>\<open>game.ts\<close>. \<^verbatim>\<open>lastTime\<close> only ever holds 0 or a
  timestamp handed to \<^verbatim>\<open>renderLoop\<close> by \<^verbatim>\<open>requestAnimationFrame\<close>, which is finite, so
  it is a real. \<^verbatim>\<open>renderCount\<close> only holds integers. \<^verbatim>\<open>canvas_width\<close> and
  \<^verbatim>\<open>canvas_height\<close> are the size of the main canvas, \<^verbatim>\<open>countDisplay\<close> is the text of
  the counter between the two buttons, and \<^verbatim>\<open>fpsCanvas\<close> stands for both the FPS canvas
  and its context.
\<close>

record game =
  lastTime :: real
  renderCount :: int
  fpsArray :: "jsnum list"
  fpsCanvas :: canvas2d
  canvas_width :: int
  canvas_height :: int
  countDisplay :: "part list"

definition MAX_FPS_SAMPLES :: nat where
  "MAX_FPS_SAMPLES = 1000"

text \<open>
  The calls that one run of \<^verbatim>\<open>renderLoop\<close> makes, in program order: on the context of
  the FPS canvas, on the Rive renderer, state machine and artboard, and on the window.
  \<^verbatim>\<open>RendererAlign\<close> carries the fit, the alignment and the frame; the fourth argument of
  the source is always \<^verbatim>\<open>artboard.bounds\<close>.
\<close>

datatype fit = Contain

datatype alignment = Center

datatype call =
    Ctx ctx_call
  | RendererClear
  | StateMachineAdvance real
  | ArtboardAdvance real
  | RendererSave
  | RendererAlign fit alignment int int int int
  | ArtboardDraw
  | RendererRestore
  | RendererFlush
  | ResolveAnimationFrame
  | RequestAnimationFrame

section \<open>The controls\<close>

text \<open>The handlers of the two buttons that \<^verbatim>\<open>main\<close> creates.\<close>

definition minusBtn_onclick :: "game \<Rightarrow> game" where
  "minusBtn_onclick g =
     (let g1 = g\<lparr>renderCount := max 1 (renderCount g - 1)\<rparr>
      in g1\<lparr>countDisplay := [NumToString (Fin (of_int (renderCount g1)))]\<rparr>)"

definition plusBtn_onclick :: "game \<Rightarrow> game" where
  "plusBtn_onclick g =
     (let g1 = g\<lparr>renderCount := min 100 (renderCount g + 1)\<rparr>
      in g1\<lparr>countDisplay := [NumToString (Fin (of_int (renderCount g1)))]\<rparr>)"

section \<open>The FPS graph\<close>

text \<open>\<^verbatim>\<open>initFPSCanvas\<close>: a new canvas of 200 by 100 pixels in its initial drawing state.\<close>

definition initFPSCanvas :: canvas2d where
  "initFPSCanvas =
     \<lparr>cv_width = 200, cv_height = 100, strokeStyle = ''#000000'', fillStyle = ''#000000'',
      font = ''10px sans-serif'', path = [], painted = []\<rparr>"

text \<open>The two loops that draw the grid, every 20 pixels.\<close>

function gridColumns :: "int \<Rightarrow> int \<Rightarrow> int \<Rightarrow> ctx_call list" where
  "gridColumns i width height =
     (if i < width
      then [MoveTo (Fin (of_int i)) (Fin 0), LineTo (Fin (of_int i)) (Fin (of_int height))]
           @ gridColumns (i + 20) width height
      else [])"
  by pat_completeness auto
termination
  by (relation "measure (\<lambda>(i, width, height). nat (width - i))") auto

function gridRows :: "int \<Rightarrow> int \<Rightarrow> int \<Rightarrow> ctx_call list" where
  "gridRows i width height =
     (if i < height
      then [MoveTo (Fin 0) (Fin (of_int i)), LineTo (Fin (of_int width)) (Fin (of_int i))]
           @ gridRows (i + 20) width height
      else [])"
  by pat_completeness auto
termination
  by (relation "measure (\<lambda>(i, width, height). nat (height - i))") auto

declare gridColumns.simps [simp del] gridRows.simps [simp del]

definition minFPS :: real where
  "minFPS = 15"

definition maxFPS :: real where
  "maxFPS = 200"

definition targetFPS :: "real list" where
  "targetFPS = [30, 60, 120]"

text \<open>The body of the \<^verbatim>\<open>forEach\<close> over \<^verbatim>\<open>targetFPS\<close>.\<close>

definition drawTarget :: "int \<Rightarrow> int \<Rightarrow> real \<Rightarrow> ctx_call list" where
  "drawTarget width height fps =
     (let yPos = js_sub (Fin (of_int height))
                   (js_mul (js_div (js_sub (Fin fps) (Fin minFPS))
                                   (js_sub (Fin maxFPS) (Fin minFPS)))
                           (Fin (of_int height)))
      in [SetStrokeStyle ''rgba(255, 0, 0, 0.5)'',
          BeginPath,
          MoveTo (Fin 0) yPos,
          LineTo (Fin (of_int width)) yPos,
          Stroke,
          SetFillStyle ''rgb(255, 255, 255)'',
          SetFont ''8px monospace'',
          FillText [NumToString (Fin fps), Lit '' FPS''] (Fin 5) (js_sub yPos (Fin 2))])"

text \<open>
  The body of the \<^verbatim>\<open>forEach\<close> over \<^verbatim>\<open>fpsArray\<close>, for the element \<^verbatim>\<open>fps\<close> at index
  \<^verbatim>\<open>i\<close>. \<^verbatim>\<open>forEach\<close> calls it for the indices from 0 to the length of the array, in order.
\<close>

definition drawSample :: "int \<Rightarrow> int \<Rightarrow> jsnum list \<Rightarrow> jsnum \<Rightarrow> nat \<Rightarrow> ctx_call" where
  "drawSample width height arr fps i =
     (let x = js_mul (js_div (Fin (of_nat i)) (Fin (of_int (int (length arr) - 1))))
                     (Fin (of_int width));
          clampedFPS = Math_max (Fin minFPS) (Math_min (Fin maxFPS) fps);
          y = js_sub (Fin (of_int height))
                (js_mul (js_div (js_sub clampedFPS (Fin minFPS))
                                (js_sub (Fin maxFPS) (Fin minFPS)))
                        (Fin (of_int height)))
      in LineTo x y)"

text \<open>
  The line of the samples: the \<^verbatim>\<open>forEach\<close> only runs when the array holds more than one
  sample.
\<close>

definition drawFPSLine :: "int \<Rightarrow> int \<Rightarrow> jsnum list \<Rightarrow> ctx_call list" where
  "drawFPSLine width height arr =
     (if length arr > 1
      then map (\<lambda>i. drawSample width height arr (arr ! i) i) [0 ..< length arr]
      else [])"

text \<open>
  \<^verbatim>\<open>drawFPSGraph\<close> reads the size of the FPS canvas and \<^verbatim>\<open>fpsArray\<close>. These are the
  calls it makes on the context.
\<close>

definition drawFPSGraph_calls :: "game \<Rightarrow> ctx_call list" where
  "drawFPSGraph_calls g =
     (let width = cv_width (fpsCanvas g);
          height = cv_height (fpsCanvas g);
          arr = fpsArray g
      in [ClearRect (Fin 0) (Fin 0) (Fin (of_int width)) (Fin (of_int height)),
          SetFillStyle ''rgba(0, 0, 0, 0.7)'',
          FillRect (Fin 0) (Fin 0) (Fin (of_int width)) (Fin (of_int height)),
          SetStrokeStyle ''rgba(255, 255, 255, 0.1)'',
          BeginPath]
         @ gridColumns 0 width height
         @ gridRows 0 width height
         @ [Stroke]
         @ concat (map (drawTarget width height) targetFPS)
         @ [SetStrokeStyle ''rgb(0, 255, 0)'',
            BeginPath,
            MoveTo (Fin 0) (Fin (of_int height))]
         @ drawFPSLine width height arr
         @ [Stroke,
            SetFillStyle ''rgb(255, 255, 255)'',
            SetFont ''10px monospace'',
            FillText [Lit ''Current: '',
                      NumToString (Math_round (js_index arr (int (length arr) - 1))),
                      Lit '' FPS''] (Fin 5) (Fin 10)])"

definition drawFPSGraph :: "game \<Rightarrow> game" where
  "drawFPSGraph g = g\<lparr>fpsCanvas := ctx_run (fpsCanvas g) (drawFPSGraph_calls g)\<rparr>"

section \<open>The render loop\<close>

text \<open>
  The elapsed time that \<^verbatim>\<open>renderLoop\<close> computes in its first lines, in seconds. The
  test \<^verbatim>\<open>!lastTime\<close> holds when \<^verbatim>\<open>lastTime\<close> is 0.
\<close>

definition elapsedTimeSec :: "real \<Rightarrow> game \<Rightarrow> real" where
  "elapsedTimeSec time g =
     (let lastTime1 = (if lastTime g = 0 then time else lastTime g);
          elapsedTimeMs = time - lastTime1
      in elapsedTimeMs / 1000)"

text \<open>\<^verbatim>\<open>fpsArray.push(fps)\<close>, then \<^verbatim>\<open>shift()\<close> when the array has grown past the maximum.\<close>

definition pushSample :: "jsnum list \<Rightarrow> jsnum \<Rightarrow> jsnum list" where
  "pushSample arr fps =
     (let arr1 = arr @ [fps]
      in if length arr1 > MAX_FPS_SAMPLES then tl arr1 else arr1)"

text \<open>The loop that draws the artboard \<^verbatim>\<open>renderCount\<close> times.\<close>

function drawLoop :: "int \<Rightarrow> int \<Rightarrow> call list" where
  "drawLoop i n = (if i < n then ArtboardDraw # drawLoop (i + 1) n else [])"
  by pat_completeness auto
termination
  by (relation "measure (\<lambda>(i, n). nat (n - i))") auto

declare drawLoop.simps [simp del]

text \<open>
  \<^verbatim>\<open>renderLoop\<close> returns the new state of the module and the calls it has made. The last
  call hands \<^verbatim>\<open>renderLoop\<close> to \<^verbatim>\<open>requestAnimationFrame\<close> again.
\<close>

definition renderLoop :: "real \<Rightarrow> game \<Rightarrow> game \<times> call list" where
  "renderLoop time g =
     (let elapsed = elapsedTimeSec time g;
          g1 = g\<lparr>lastTime := time\<rparr>;
          fps = js_div (Fin 1) (Fin elapsed);
          g2 = g1\<lparr>fpsArray := pushSample (fpsArray g1) fps\<rparr>;
          g3 = drawFPSGraph g2
      in (g3,
          map Ctx (drawFPSGraph_calls g2)
          @ [RendererClear,
             StateMachineAdvance elapsed,
             ArtboardAdvance elapsed,
             RendererSave,
             RendererAlign Contain Center 0 0 (canvas_width g3) (canvas_height g3)]
          @ drawLoop 0 (renderCount g3)
          @ [RendererRestore,
             RendererFlush,
             ResolveAnimationFrame,
             RequestAnimationFrame]))"

section \<open>Runs of the program\<close>

text \<open>
  The state in which \<^verbatim>\<open>main\<close> leaves the module when it requests the first frame, for a
  window of the given inner size.
\<close>

definition initial :: "int \<Rightarrow> int \<Rightarrow> game" where
  "initial innerWidth innerHeight =
     \<lparr>lastTime = 0, renderCount = 1, fpsArray = [], fpsCanvas = initFPSCanvas,
      canvas_width = innerWidth, canvas_height = innerHeight, countDisplay = [Lit ''1'']\<rparr>"

text \<open>What happens afterwards: a frame at some timestamp, or a click on a button.\<close>

datatype input = Frame real | ClickPlus | ClickMinus

fun step :: "game \<Rightarrow> input \<Rightarrow> game" where
  "step g (Frame time) = fst (renderLoop time g)"
| "step g ClickPlus = plusBtn_onclick g"
| "step g ClickMinus = minusBtn_onclick g"

definition run :: "game \<Rightarrow> input list \<Rightarrow> game" where
  "run g ins = foldl step g ins"

section \<open>Notions used in the statements\<close>

text \<open>The calls of \<^verbatim>\<open>renderLoop\<close> other than those on the context of the FPS canvas.\<close>

definition scene_calls :: "call list \<Rightarrow> call list" where
  "scene_calls cs = filter (\<lambda>c. case c of Ctx _ \<Rightarrow> False | _ \<Rightarrow> True) cs"

text \<open>The path that a sequence of calls appends to the current path.\<close>

fun segs :: "ctx_call list \<Rightarrow> seg list" where
  "segs [] = []"
| "segs (MoveTo x y # cs) = SegMove x y # segs cs"
| "segs (LineTo x y # cs) = SegLine x y # segs cs"
| "segs (_ # cs) = segs cs"

text \<open>
  The mapping of the graph as the specification words it: an FPS value between 15 and
  200 is mapped linearly onto the rows from \<open>height\<close> down to 0, the index \<open>i\<close> of \<open>n\<close>
  samples onto the columns from 0 to \<open>width\<close>, and a sample is first clamped into the
  range from 15 to 200. Not-a-number has no clamped value.
\<close>

definition spec_yPos :: "real \<Rightarrow> real \<Rightarrow> real" where
  "spec_yPos height fps = height - ((fps - 15) / (200 - 15)) * height"

definition spec_xPos :: "real \<Rightarrow> nat \<Rightarrow> nat \<Rightarrow> real" where
  "spec_xPos width n i = (real i / (real n - 1)) * width"

fun spec_clamp :: "jsnum \<Rightarrow> real option" where
  "spec_clamp (Fin a) = Some (if a < 15 then 15 else if 200 < a then 200 else a)"
| "spec_clamp PosInf = Some 200"
| "spec_clamp NegInf = Some 15"
| "spec_clamp NaN = None"

text \<open>What the line of a reference value and its label leave on the canvas.\<close>

definition target_paint :: "int \<Rightarrow> int \<Rightarrow> real \<Rightarrow> paint list" where
  "target_paint width height fps =
     [Stroked ''rgba(255, 0, 0, 0.5)''
        [SegMove (Fin 0) (Fin (spec_yPos (of_int height) fps)),
         SegLine (Fin (of_int width)) (Fin (spec_yPos (of_int height) fps))],
      FilledText ''rgb(255, 255, 255)'' ''8px monospace'' [NumToString (Fin fps), Lit '' FPS'']
        (Fin 5) (Fin (spec_yPos (of_int height) fps - 2))]"

text \<open>
  The five steps of the graph as the specification lists them, for a canvas of the given
  width and height: the background, the grid with a line every 20 pixels, the line and
  the label of a reference value, the line over the clamped samples \<open>cs\<close>, and the text
  of the current value.
\<close>

definition spec_background :: "int \<Rightarrow> int \<Rightarrow> ctx_call list" where
  "spec_background width height =
     [ClearRect (Fin 0) (Fin 0) (Fin (of_int width)) (Fin (of_int height)),
      SetFillStyle ''rgba(0, 0, 0, 0.7)'',
      FillRect (Fin 0) (Fin 0) (Fin (of_int width)) (Fin (of_int height))]"

definition spec_grid :: "int \<Rightarrow> int \<Rightarrow> ctx_call list" where
  "spec_grid width height =
     [SetStrokeStyle ''rgba(255, 255, 255, 0.1)'', BeginPath]
     @ concat (map (\<lambda>j. [MoveTo (Fin (of_int (20 * int j))) (Fin 0),
                          LineTo (Fin (of_int (20 * int j))) (Fin (of_int height))])
                   [0 ..< nat ((width + 19) div 20)])
     @ concat (map (\<lambda>j. [MoveTo (Fin 0) (Fin (of_int (20 * int j))),
                          LineTo (Fin (of_int width)) (Fin (of_int (20 * int j)))])
                   [0 ..< nat ((height + 19) div 20)])
     @ [Stroke]"

definition spec_grid_path :: "int \<Rightarrow> int \<Rightarrow> seg list" where
  "spec_grid_path width height =
     concat (map (\<lambda>j. [SegMove (Fin (of_int (20 * int j))) (Fin 0),
                        SegLine (Fin (of_int (20 * int j))) (Fin (of_int height))])
                 [0 ..< nat ((width + 19) div 20)])
     @ concat (map (\<lambda>j. [SegMove (Fin 0) (Fin (of_int (20 * int j))),
                          SegLine (Fin (of_int width)) (Fin (of_int (20 * int j)))])
                   [0 ..< nat ((height + 19) div 20)])"

definition spec_reference_line :: "int \<Rightarrow> int \<Rightarrow> real \<Rightarrow> ctx_call list" where
  "spec_reference_line width height fps =
     [SetStrokeStyle ''rgba(255, 0, 0, 0.5)'',
      BeginPath,
      MoveTo (Fin 0) (Fin (spec_yPos (of_int height) fps)),
      LineTo (Fin (of_int width)) (Fin (spec_yPos (of_int height) fps)),
      Stroke,
      SetFillStyle ''rgb(255, 255, 255)'',
      SetFont ''8px monospace'',
      FillText [NumToString (Fin fps), Lit '' FPS''] (Fin 5)
        (Fin (spec_yPos (of_int height) fps - 2))]"

definition spec_polyline :: "int \<Rightarrow> int \<Rightarrow> real list \<Rightarrow> ctx_call list" where
  "spec_polyline width height cs =
     [SetStrokeStyle ''rgb(0, 255, 0)'', BeginPath, MoveTo (Fin 0) (Fin (of_int height))]
     @ (if length cs \<le> 1 then []
        else map (\<lambda>i. LineTo (Fin (spec_xPos (of_int width) (length cs) i))
                             (Fin (spec_yPos (of_int height) (cs ! i))))
                 [0 ..< length cs])
     @ [Stroke]"

definition spec_readout :: "jsnum \<Rightarrow> ctx_call list" where
  "spec_readout v =
     [SetFillStyle ''rgb(255, 255, 255)'',
      SetFont ''10px monospace'',
      FillText [Lit ''Current: '', NumToString v, Lit '' FPS''] (Fin 5) (Fin 10)]"

section \<open>Basic facts\<close>

lemma ctx_exec_size [simp]:
  "cv_width (ctx_exec c k) = cv_width c" "cv_height (ctx_exec c k) = cv_height c"
  by (cases k; simp)+

lemma ctx_run_size [simp]:
  "cv_width (ctx_run c ks) = cv_width c" "cv_height (ctx_run c ks) = cv_height c"
  by (induction ks arbitrary: c; simp add: ctx_run_def)+

lemma drawFPSGraph_fields [simp]:
  "lastTime (drawFPSGraph g) = lastTime g"
  "renderCount (drawFPSGraph g) = renderCount g"
  "fpsArray (drawFPSGraph g) = fpsArray g"
  "canvas_width (drawFPSGraph g) = canvas_width g"
  "canvas_height (drawFPSGraph g) = canvas_height g"
  "countDisplay (drawFPSGraph g) = countDisplay g"
  "fpsCanvas (drawFPSGraph g) = ctx_run (fpsCanvas g) (drawFPSGraph_calls g)"
  by (simp_all add: drawFPSGraph_def)

lemma renderLoop_fields [simp]:
  "lastTime (fst (renderLoop time g)) = time"
  "renderCount (fst (renderLoop time g)) = renderCount g"
  "fpsArray (fst (renderLoop time g)) =
     pushSample (fpsArray g) (js_div (Fin 1) (Fin (elapsedTimeSec time g)))"
  "canvas_width (fst (renderLoop time g)) = canvas_width g"
  "canvas_height (fst (renderLoop time g)) = canvas_height g"
  "countDisplay (fst (renderLoop time g)) = countDisplay g"
  by (simp_all add: renderLoop_def Let_def)

lemma renderLoop_canvas_size [simp]:
  "cv_width (fpsCanvas (fst (renderLoop time g))) = cv_width (fpsCanvas g)"
  "cv_height (fpsCanvas (fst (renderLoop time g))) = cv_height (fpsCanvas g)"
  by (simp_all add: renderLoop_def Let_def)

lemma MAX_FPS_SAMPLES_pos: "0 < MAX_FPS_SAMPLES"
  by (simp add: MAX_FPS_SAMPLES_def)

section \<open>The history of FPS samples is bounded\<close>

text \<open>
  Dropping the head of a full window that has received one more sample gives the window
  of the longer sequence.
\<close>

lemma tl_window:
  assumes "0 < n" and "n \<le> length xs"
  shows "tl (drop (length xs - n) xs @ [x]) = drop (length (xs @ [x]) - n) (xs @ [x])"
proof -
  from assms have "drop (length xs - n) xs \<noteq> []"
    by simp
  then have "tl (drop (length xs - n) xs @ [x]) = tl (drop (length xs - n) xs) @ [x]"
    by simp
  also have "tl (drop (length xs - n) xs) = drop (Suc (length xs - n)) xs"
    by (simp add: drop_Suc tl_drop)
  also have "Suc (length xs - n) = length (xs @ [x]) - n"
    using assms by simp
  also have "drop (length (xs @ [x]) - n) xs @ [x] = drop (length (xs @ [x]) - n) (xs @ [x])"
    using assms by simp
  finally show ?thesis .
qed

lemma pushSample_all:
  "foldl pushSample [] xs = drop (length xs - MAX_FPS_SAMPLES) xs"
proof (induction xs rule: rev_induct)
  case Nil
  show ?case by simp
next
  case (snoc x xs)
  show ?case
  proof (cases "length xs < MAX_FPS_SAMPLES")
    case True
    with snoc show ?thesis
      by (simp add: pushSample_def Let_def)
  next
    case False
    then have full: "length (drop (length xs - MAX_FPS_SAMPLES) xs) = MAX_FPS_SAMPLES"
      by simp
    have "pushSample (drop (length xs - MAX_FPS_SAMPLES) xs) x
          = tl (drop (length xs - MAX_FPS_SAMPLES) xs @ [x])"
      using full by (simp add: pushSample_def Let_def)
    also have "\<dots> = drop (length (xs @ [x]) - MAX_FPS_SAMPLES) (xs @ [x])"
      using False by (intro tl_window MAX_FPS_SAMPLES_pos) simp
    finally show ?thesis using snoc by simp
  qed
qed

text \<open>
  Claim C2. The samples are recorded by \<^verbatim>\<open>renderLoop\<close> with \<^const>\<open>pushSample\<close>. Starting
  from the empty history, after any sequence \<open>xs\<close> of recorded samples the history holds
  at most 1000 samples, and so does it after every prefix of \<open>xs\<close>; once more than 1000
  samples have been recorded, the history is exactly the last 1000 of them, in the order
  in which they were recorded, the oldest first.
\<close>

theorem fps_history_bounded:
  "fpsArray (fst (renderLoop time g))
     = pushSample (fpsArray g) (js_div (Fin 1) (Fin (elapsedTimeSec time g)))
   \<and> length (foldl pushSample [] xs) \<le> 1000
   \<and> (\<forall>n. length (foldl pushSample [] (take n xs)) \<le> 1000)
   \<and> (1000 < length xs \<longrightarrow>
        length (foldl pushSample [] xs) = 1000
        \<and> foldl pushSample [] xs = drop (length xs - 1000) xs)"
proof -
  have bound: "length (foldl pushSample [] ys) \<le> 1000" for ys
    unfolding pushSample_all by (simp add: MAX_FPS_SAMPLES_def)
  have window: "foldl pushSample [] xs = drop (length xs - 1000) xs"
    unfolding pushSample_all by (simp add: MAX_FPS_SAMPLES_def)
  have full: "length (foldl pushSample [] xs) = 1000" if "1000 < length xs"
    unfolding window using that by simp
  show ?thesis
    using bound window full by simp
qed

theorem fps_history_bounded_witness:
  "1000 < length (replicate 1500 (Fin 60) @ [Fin 30])
   \<and> foldl pushSample [] (replicate 1500 (Fin 60) @ [Fin 30]) = replicate 999 (Fin 60) @ [Fin 30]"
  using fps_history_bounded [where xs = "replicate 1500 (Fin 60) @ [Fin 30]"]
  by simp

section \<open>The render count stays between 1 and 100\<close>

lemma step_renderCount:
  "1 \<le> renderCount g \<Longrightarrow> renderCount g \<le> 100 \<Longrightarrow>
   1 \<le> renderCount (step g i) \<and> renderCount (step g i) \<le> 100"
  by (cases i) (simp_all add: plusBtn_onclick_def minusBtn_onclick_def Let_def)

lemma run_renderCount:
  "1 \<le> renderCount g \<Longrightarrow> renderCount g \<le> 100 \<Longrightarrow>
   1 \<le> renderCount (run g ins) \<and> renderCount (run g ins) \<le> 100"
proof (induction ins rule: rev_induct)
  case Nil
  then show ?case by (simp add: run_def)
next
  case (snoc i ins)
  then show ?case
    using step_renderCount [of "run g ins" i] by (simp add: run_def)
qed

text \<open>
  Claim C3. Whatever sequence of clicks on the two buttons (and of frames) follows the
  start of the program, where \<^verbatim>\<open>renderCount\<close> is 1, \<^verbatim>\<open>renderCount\<close> is between 1 and
  100 after each of them. A click on plus sets it to \<open>min 100 (renderCount + 1)\<close>, which
  changes nothing at 100; a click on minus sets it to \<open>max 1 (renderCount - 1)\<close>, which
  changes nothing at 1.
\<close>

theorem renderCount_clamped:
  "1 \<le> renderCount (run (initial w h) ins) \<and> renderCount (run (initial w h) ins) \<le> 100
   \<and> renderCount (plusBtn_onclick g) = min 100 (renderCount g + 1)
   \<and> renderCount (minusBtn_onclick g) = max 1 (renderCount g - 1)
   \<and> (renderCount g = 100 \<longrightarrow> renderCount (plusBtn_onclick g) = renderCount g)
   \<and> (renderCount g' = 1 \<longrightarrow> renderCount (minusBtn_onclick g') = renderCount g')"
proof -
  have "1 \<le> renderCount (initial w h)" "renderCount (initial w h) \<le> 100"
    by (simp_all add: initial_def)
  then have "1 \<le> renderCount (run (initial w h) ins)
             \<and> renderCount (run (initial w h) ins) \<le> 100"
    by (rule run_renderCount)
  then show ?thesis
    by (simp add: plusBtn_onclick_def minusBtn_onclick_def Let_def)
qed

theorem renderCount_clamped_witness:
  "renderCount (run (initial 800 600) (replicate 99 ClickPlus)) = 100
   \<and> renderCount (plusBtn_onclick (run (initial 800 600) (replicate 99 ClickPlus))) = 100
   \<and> renderCount (initial 800 600) = 1
   \<and> renderCount (minusBtn_onclick (initial 800 600)) = 1"
proof -
  have top: "renderCount (run (initial 800 600) (replicate 99 ClickPlus)) = 100"
    by code_simp
  have bottom: "renderCount (initial 800 600) = 1"
    by (simp add: initial_def)
  show ?thesis
    using top bottom
      renderCount_clamped [where g = "run (initial 800 600) (replicate 99 ClickPlus)"
        and g' = "initial 800 600"]
    by simp
qed

section \<open>The calls of one frame\<close>

lemma drawLoop_replicate: "drawLoop i n = replicate (nat (n - i)) ArtboardDraw"
proof (induction i n rule: drawLoop.induct)
  case (1 i n)
  show ?case
  proof (cases "i < n")
    case True
    then have "nat (n - i) = Suc (nat (n - (i + 1)))"
      by simp
    with True 1 show ?thesis
      by (subst drawLoop.simps) simp
  next
    case False
    then show ?thesis
      by (subst drawLoop.simps) simp
  qed
qed

lemma drawFPSGraph_calls_cong:
  "fpsArray g = fpsArray g' \<Longrightarrow> cv_width (fpsCanvas g) = cv_width (fpsCanvas g') \<Longrightarrow>
   cv_height (fpsCanvas g) = cv_height (fpsCanvas g') \<Longrightarrow>
   drawFPSGraph_calls g = drawFPSGraph_calls g'"
  by (simp add: drawFPSGraph_calls_def)

lemma renderLoop_calls:
  "snd (renderLoop time g) =
     map Ctx (drawFPSGraph_calls (fst (renderLoop time g)))
     @ [RendererClear,
        StateMachineAdvance (elapsedTimeSec time g),
        ArtboardAdvance (elapsedTimeSec time g),
        RendererSave,
        RendererAlign Contain Center 0 0 (canvas_width g) (canvas_height g)]
     @ replicate (nat (renderCount g)) ArtboardDraw
     @ [RendererRestore, RendererFlush, ResolveAnimationFrame, RequestAnimationFrame]"
proof -
  have "drawFPSGraph_calls (fst (renderLoop time g))
        = drawFPSGraph_calls (g\<lparr>lastTime := time,
            fpsArray := pushSample (fpsArray g) (js_div (Fin 1) (Fin (elapsedTimeSec time g)))\<rparr>)"
    by (rule drawFPSGraph_calls_cong) simp_all
  then show ?thesis
    by (simp add: renderLoop_def Let_def drawLoop_replicate)
qed

lemma renderLoop_canvas:
  "fpsCanvas (fst (renderLoop time g))
     = ctx_run (fpsCanvas g) (drawFPSGraph_calls (fst (renderLoop time g)))"
proof -
  have "drawFPSGraph_calls (fst (renderLoop time g))
        = drawFPSGraph_calls (g\<lparr>lastTime := time,
            fpsArray := pushSample (fpsArray g) (js_div (Fin 1) (Fin (elapsedTimeSec time g)))\<rparr>)"
    by (rule drawFPSGraph_calls_cong) simp_all
  then show ?thesis
    by (simp add: renderLoop_def Let_def)
qed

lemma scene_calls_Ctx: "scene_calls (map Ctx ks @ cs) = scene_calls cs"
  by (induction ks) (simp_all add: scene_calls_def)

lemma count_list_Ctx: "(\<And>k. c \<noteq> Ctx k) \<Longrightarrow> count_list (map Ctx ks) c = 0"
  by (induction ks) auto

lemma count_list_draws:
  "count_list (replicate n ArtboardDraw) c = (if c = ArtboardDraw then n else 0)"
  by (induction n) auto

lemma elapsedTimeSec_zero:
  "elapsedTimeSec time g = 0 \<longleftrightarrow> lastTime g = 0 \<or> time = lastTime g"
  by (simp add: elapsedTimeSec_def Let_def)

lemma run_frames:
  "run g [] = g"
  "run g (i # ins) = run (step g i) ins"
  by (simp_all add: run_def)

text \<open>
  Claim C4. In a frame where \<^verbatim>\<open>renderCount\<close> is \<open>k\<close>, between 1 and 100, the calls on the
  renderer, the state machine and the artboard are: one advance of the state machine and
  one of the artboard, both with the elapsed seconds of the frame, then, between the
  \<^verbatim>\<open>save\<close> and \<^verbatim>\<open>align\<close> and the \<^verbatim>\<open>restore\<close> of the renderer and with nothing else in
  between, \<open>k\<close> calls of \<^verbatim>\<open>draw\<close>, and after them one \<^verbatim>\<open>flush\<close>. No other advance, draw
  or flush is made in the frame.
\<close>

theorem draw_call_cardinality:
  assumes "1 \<le> renderCount g" and "renderCount g \<le> 100"
  shows "scene_calls (snd (renderLoop time g)) =
           [RendererClear,
            StateMachineAdvance (elapsedTimeSec time g),
            ArtboardAdvance (elapsedTimeSec time g),
            RendererSave,
            RendererAlign Contain Center 0 0 (canvas_width g) (canvas_height g)]
           @ replicate (nat (renderCount g)) ArtboardDraw
           @ [RendererRestore, RendererFlush, ResolveAnimationFrame, RequestAnimationFrame]
         \<and> int (count_list (snd (renderLoop time g)) ArtboardDraw) = renderCount g
         \<and> count_list (snd (renderLoop time g)) (StateMachineAdvance e)
             = (if e = elapsedTimeSec time g then 1 else 0)
         \<and> count_list (snd (renderLoop time g)) (ArtboardAdvance e)
             = (if e = elapsedTimeSec time g then 1 else 0)
         \<and> count_list (snd (renderLoop time g)) RendererFlush = 1"
  using assms unfolding renderLoop_calls
  by (simp add: scene_calls_def count_list_Ctx count_list_draws)

theorem draw_call_cardinality_witness:
  "renderCount (run (initial 800 600) [ClickPlus, ClickPlus, Frame 1000]) = 3
   \<and> scene_calls (snd (renderLoop 1016 (run (initial 800 600) [ClickPlus, ClickPlus, Frame 1000])))
       = [RendererClear, StateMachineAdvance (2 / 125), ArtboardAdvance (2 / 125), RendererSave,
          RendererAlign Contain Center 0 0 800 600,
          ArtboardDraw, ArtboardDraw, ArtboardDraw,
          RendererRestore, RendererFlush, ResolveAnimationFrame, RequestAnimationFrame]
   \<and> count_list (snd (renderLoop 1016 (run (initial 800 600) [ClickPlus, ClickPlus, Frame 1000])))
        ArtboardDraw = 3"
proof -
  have k: "renderCount (run (initial 800 600) [ClickPlus, ClickPlus, Frame 1000]) = 3"
    by (simp add: run_frames plusBtn_onclick_def initial_def Let_def)
  have e: "elapsedTimeSec 1016 (run (initial 800 600) [ClickPlus, ClickPlus, Frame 1000]) = 2 / 125"
    by (simp add: run_frames elapsedTimeSec_def)
  have w: "canvas_width (run (initial 800 600) [ClickPlus, ClickPlus, Frame 1000]) = 800"
    "canvas_height (run (initial 800 600) [ClickPlus, ClickPlus, Frame 1000]) = 600"
    by (simp_all add: run_frames plusBtn_onclick_def initial_def Let_def)
  show ?thesis
    using draw_call_cardinality
      [of "run (initial 800 600) [ClickPlus, ClickPlus, Frame 1000]" 1016 0]
    by (simp add: k e w numeral_3_eq_3)
qed

section \<open>Frames with no elapsed time\<close>

lemma fps_not_NaN: "js_div (Fin 1) (Fin e) \<noteq> NaN"
  by simp

lemma fps_zero_elapsed: "js_div (Fin 1) (Fin 0) = PosInf"
  by simp

lemma pushSample_last: "last (pushSample arr fps) = fps"
  by (cases arr) (simp_all add: pushSample_def Let_def MAX_FPS_SAMPLES_def)

lemma pushSample_length:
  "length (pushSample arr fps)
     = (if length arr < MAX_FPS_SAMPLES then length arr + 1 else length arr)"
  by (simp add: pushSample_def Let_def)

lemma pushSample_full:
  "length arr = MAX_FPS_SAMPLES \<Longrightarrow> pushSample arr fps = tl arr @ [fps]"
  by (cases arr) (simp_all add: pushSample_def Let_def MAX_FPS_SAMPLES_def)

text \<open>
  Claim C1, as the program has it. \<^verbatim>\<open>renderLoop\<close> has no test on the elapsed time: every
  frame pushes \<open>1 / elapsedTimeSec\<close>. In a frame whose elapsed time is zero the sample
  pushed is positive infinity, which becomes the last entry of the history; the history
  is one entry longer than before while it held fewer than 1000 entries, and at 1000
  entries its oldest entry is dropped and its length stays 1000. The sample of a frame is
  never not-a-number.
\<close>

theorem zero_elapsed_records_infinity:
  assumes "elapsedTimeSec time g = 0"
  shows "fpsArray (fst (renderLoop time g)) = pushSample (fpsArray g) PosInf
       \<and> last (fpsArray (fst (renderLoop time g))) = PosInf
       \<and> (length (fpsArray g) < 1000 \<longrightarrow>
            length (fpsArray (fst (renderLoop time g))) = length (fpsArray g) + 1)
       \<and> (length (fpsArray g) = 1000 \<longrightarrow>
            length (fpsArray (fst (renderLoop time g))) = 1000
            \<and> fpsArray (fst (renderLoop time g)) = tl (fpsArray g) @ [PosInf])
       \<and> js_div (Fin 1) (Fin (elapsedTimeSec time' g')) \<noteq> NaN"
proof -
  have rec: "fpsArray (fst (renderLoop time g)) = pushSample (fpsArray g) PosInf"
    using assms by simp
  have full: "pushSample (fpsArray g) PosInf = tl (fpsArray g) @ [PosInf]"
    if "length (fpsArray g) = 1000"
    using that by (intro pushSample_full) (simp add: MAX_FPS_SAMPLES_def)
  show ?thesis
    unfolding rec using full
    by (simp add: pushSample_last pushSample_length MAX_FPS_SAMPLES_def)
qed

theorem zero_elapsed_records_infinity_witness:
  "elapsedTimeSec 2000 (run (initial 800 600) [Frame 1960, Frame 2000]) = 0
   \<and> fpsArray (run (initial 800 600) [Frame 1960, Frame 2000]) = [PosInf, Fin 25]
   \<and> fpsArray (fst (renderLoop 2000 (run (initial 800 600) [Frame 1960, Frame 2000])))
       = [PosInf, Fin 25, PosInf]
   \<and> elapsedTimeSec 2000 ((initial 800 600)\<lparr>fpsArray := replicate 1000 (Fin 60)\<rparr>) = 0
   \<and> length (fpsArray ((initial 800 600)\<lparr>fpsArray := replicate 1000 (Fin 60)\<rparr>)) = 1000
   \<and> fpsArray (fst (renderLoop 2000 ((initial 800 600)\<lparr>fpsArray := replicate 1000 (Fin 60)\<rparr>)))
       = replicate 999 (Fin 60) @ [PosInf]"
proof -
  have e: "elapsedTimeSec 2000 (run (initial 800 600) [Frame 1960, Frame 2000]) = 0"
    by (simp add: run_frames elapsedTimeSec_def)
  have a: "fpsArray (run (initial 800 600) [Frame 1960, Frame 2000]) = [PosInf, Fin 25]"
    by (simp add: run_frames elapsedTimeSec_def initial_def pushSample_def MAX_FPS_SAMPLES_def)
  have few: "fpsArray (fst (renderLoop 2000 (run (initial 800 600) [Frame 1960, Frame 2000])))
       = [PosInf, Fin 25, PosInf]"
    using zero_elapsed_records_infinity [OF e] a
    by (simp add: pushSample_def MAX_FPS_SAMPLES_def)
  have e': "elapsedTimeSec 2000 ((initial 800 600)\<lparr>fpsArray := replicate 1000 (Fin 60)\<rparr>) = 0"
    by (simp add: elapsedTimeSec_def initial_def)
  have l: "length (fpsArray ((initial 800 600)\<lparr>fpsArray := replicate 1000 (Fin 60)\<rparr>)) = 1000"
    by simp
  have full: "fpsArray (fst (renderLoop 2000 ((initial 800 600)\<lparr>fpsArray := replicate 1000 (Fin 60)\<rparr>)))
       = tl (fpsArray ((initial 800 600)\<lparr>fpsArray := replicate 1000 (Fin 60)\<rparr>)) @ [PosInf]"
    using zero_elapsed_records_infinity [OF e'] l by blast
  have "tl (fpsArray ((initial 800 600)\<lparr>fpsArray := replicate 1000 (Fin 60)\<rparr>))
        = replicate 999 (Fin 60)"
    by simp
  with full e a few e' l show ?thesis
    by (simp only: simp_thms)
qed

text \<open>
  The claim C1 as it is written fails: the third of the frames at 1000, 1016 and 1016
  milliseconds has no elapsed time, and it makes the history grow from two entries to
  three, the new one being infinite.
\<close>

theorem zero_elapsed_sample_counterexample:
  "elapsedTimeSec 1016 (run (initial 800 600) [Frame 1000, Frame 1016]) = 0
   \<and> length (fpsArray (run (initial 800 600) [Frame 1000, Frame 1016])) = 2
   \<and> fpsArray (fst (renderLoop 1016 (run (initial 800 600) [Frame 1000, Frame 1016])))
       = [PosInf, Fin (125 / 2), PosInf]"
  by (simp add: run_frames elapsedTimeSec_def initial_def pushSample_def MAX_FPS_SAMPLES_def)

text \<open>
  Claim C6, as the program has it. In a frame that finds \<^verbatim>\<open>lastTime\<close> at 0, as the first
  frame does, \<^verbatim>\<open>lastTime\<close> becomes the timestamp of the frame, the elapsed time is zero,
  one sample is pushed onto the history, positive infinity, and the state machine and the
  artboard are advanced by zero seconds and the artboard is drawn \<^verbatim>\<open>renderCount\<close> times.
\<close>

theorem first_tick:
  assumes "lastTime g = 0"
  shows "lastTime (fst (renderLoop time g)) = time
       \<and> elapsedTimeSec time g = 0
       \<and> fpsArray (fst (renderLoop time g)) = pushSample (fpsArray g) PosInf
       \<and> scene_calls (snd (renderLoop time g)) =
           [RendererClear, StateMachineAdvance 0, ArtboardAdvance 0, RendererSave,
            RendererAlign Contain Center 0 0 (canvas_width g) (canvas_height g)]
           @ replicate (nat (renderCount g)) ArtboardDraw
           @ [RendererRestore, RendererFlush, ResolveAnimationFrame, RequestAnimationFrame]"
proof -
  have e: "elapsedTimeSec time g = 0"
    using assms by (simp add: elapsedTimeSec_zero)
  show ?thesis
    unfolding renderLoop_calls scene_calls_Ctx by (simp add: e scene_calls_def)
qed

theorem first_tick_witness:
  "lastTime (initial 800 600) = 0
   \<and> lastTime (fst (renderLoop 5000 (initial 800 600))) = 5000
   \<and> fpsArray (fst (renderLoop 5000 (initial 800 600))) = [PosInf]
   \<and> scene_calls (snd (renderLoop 5000 (initial 800 600))) =
       [RendererClear, StateMachineAdvance 0, ArtboardAdvance 0, RendererSave,
        RendererAlign Contain Center 0 0 800 600, ArtboardDraw,
        RendererRestore, RendererFlush, ResolveAnimationFrame, RequestAnimationFrame]"
proof -
  have z: "lastTime (initial 800 600) = 0"
    by (simp add: initial_def)
  show ?thesis
    using first_tick [OF z, of 5000] z
    by (simp add: initial_def pushSample_def MAX_FPS_SAMPLES_def)
qed

text \<open>
  The claim C6 as it is written fails: the first frame of the program, at 16.67
  milliseconds, finds an empty history and leaves one sample in it.
\<close>

theorem first_tick_sample_counterexample:
  "lastTime (initial 800 600) = 0
   \<and> fpsArray (initial 800 600) = []
   \<and> fpsArray (fst (renderLoop (1667 / 100) (initial 800 600))) = [PosInf]"
  by (simp add: elapsedTimeSec_def initial_def pushSample_def MAX_FPS_SAMPLES_def)

text \<open>
  Claim C10. A frame whose timestamp is 0 leaves \<^verbatim>\<open>lastTime\<close> at 0, whatever the state
  before. The frame after it, at any timestamp, then has an elapsed time of zero: it sets
  \<^verbatim>\<open>lastTime\<close> to its own timestamp, pushes positive infinity and advances the scene by
  zero seconds, as a first frame does. After a frame whose timestamp \<open>t0\<close> is not 0, the
  elapsed time of the next frame is the real gap.
\<close>

theorem zero_timestamp_repeats_first_tick:
  "lastTime (fst (renderLoop 0 g)) = 0
   \<and> elapsedTimeSec time (fst (renderLoop 0 g)) = 0
   \<and> lastTime (fst (renderLoop time (fst (renderLoop 0 g)))) = time
   \<and> fpsArray (fst (renderLoop time (fst (renderLoop 0 g))))
       = pushSample (fpsArray (fst (renderLoop 0 g))) PosInf
   \<and> scene_calls (snd (renderLoop time (fst (renderLoop 0 g)))) =
       [RendererClear, StateMachineAdvance 0, ArtboardAdvance 0, RendererSave,
        RendererAlign Contain Center 0 0 (canvas_width g) (canvas_height g)]
       @ replicate (nat (renderCount g)) ArtboardDraw
       @ [RendererRestore, RendererFlush, ResolveAnimationFrame, RequestAnimationFrame]
   \<and> (t0 \<noteq> 0 \<longrightarrow> elapsedTimeSec time (fst (renderLoop t0 g)) = (time - t0) / 1000)"
proof -
  have e: "elapsedTimeSec time (fst (renderLoop 0 g)) = 0"
    by (simp add: elapsedTimeSec_zero)
  have n: "elapsedTimeSec time (fst (renderLoop t0 g)) = (time - t0) / 1000" if "t0 \<noteq> 0"
    using that by (simp add: elapsedTimeSec_def)
  show ?thesis
    unfolding renderLoop_calls scene_calls_Ctx using n by (simp add: e scene_calls_def)
qed

theorem zero_timestamp_repeats_first_tick_witness:
  "elapsedTimeSec 0 (initial 800 600) = 0
   \<and> elapsedTimeSec 5000 (fst (renderLoop 0 (initial 800 600))) = 0
   \<and> fpsArray (fst (renderLoop 5000 (fst (renderLoop 0 (initial 800 600))))) = [PosInf, PosInf]
   \<and> (1000::real) \<noteq> 0
   \<and> elapsedTimeSec 5000 (fst (renderLoop 1000 (initial 800 600))) = 4"
  using zero_timestamp_repeats_first_tick [of "initial 800 600" 5000 1000]
  by (simp add: elapsedTimeSec_def initial_def pushSample_def MAX_FPS_SAMPLES_def)

section \<open>The FPS graph on the canvas\<close>

lemma ctx_run_simps:
  "ctx_run c [] = c"
  "ctx_run c (k # ks) = ctx_run (ctx_exec c k) ks"
  "ctx_run c (ks @ ks') = ctx_run (ctx_run c ks) ks'"
  by (simp_all add: ctx_run_def)

lemma ctx_run_path:
  assumes "\<And>k. k \<in> set ks \<Longrightarrow> (\<exists>x y. k = MoveTo x y) \<or> (\<exists>x y. k = LineTo x y)"
  shows "ctx_run c ks = c\<lparr>path := path c @ segs ks\<rparr>"
  using assms
proof (induction ks arbitrary: c)
  case Nil
  show ?case by (simp add: ctx_run_simps)
next
  case (Cons k ks)
  have "(\<exists>x y. k = MoveTo x y) \<or> (\<exists>x y. k = LineTo x y)"
    using Cons.prems by simp
  moreover have "ctx_run (ctx_exec c k) ks = (ctx_exec c k)\<lparr>path := path (ctx_exec c k) @ segs ks\<rparr>"
    using Cons.prems by (intro Cons.IH) simp
  ultimately show ?case
    by (auto simp: ctx_run_simps)
qed

lemma gridColumns_path:
  "k \<in> set (gridColumns i w h) \<Longrightarrow> (\<exists>x y. k = MoveTo x y) \<or> (\<exists>x y. k = LineTo x y)"
proof (induction i w h rule: gridColumns.induct)
  case (1 i w h)
  then show ?case
    by (subst (asm) gridColumns.simps) (auto split: if_splits)
qed

lemma gridRows_path:
  "k \<in> set (gridRows i w h) \<Longrightarrow> (\<exists>x y. k = MoveTo x y) \<or> (\<exists>x y. k = LineTo x y)"
proof (induction i w h rule: gridRows.induct)
  case (1 i w h)
  then show ?case
    by (subst (asm) gridRows.simps) (auto split: if_splits)
qed

lemma grid_path:
  assumes "k \<in> set (gridColumns 0 w h @ gridRows 0 w h)"
  shows "(\<exists>x y. k = MoveTo x y) \<or> (\<exists>x y. k = LineTo x y)"
proof -
  from assms have "k \<in> set (gridColumns 0 w h) \<or> k \<in> set (gridRows 0 w h)"
    by simp
  then show ?thesis
    using gridColumns_path [of k 0 w h] gridRows_path [of k 0 w h] by blast
qed

lemma drawFPSLine_path:
  assumes "k \<in> set (drawFPSLine w h arr)"
  shows "(\<exists>x y. k = MoveTo x y) \<or> (\<exists>x y. k = LineTo x y)"
proof -
  from assms obtain i where "k = drawSample w h arr (arr ! i) i"
    by (auto simp: drawFPSLine_def split: if_splits)
  then show ?thesis
    by (simp add: drawSample_def Let_def)
qed

lemma drawFPSGraph_calls_parts:
  "drawFPSGraph_calls g =
     [ClearRect (Fin 0) (Fin 0) (Fin (of_int (cv_width (fpsCanvas g))))
        (Fin (of_int (cv_height (fpsCanvas g)))),
      SetFillStyle ''rgba(0, 0, 0, 0.7)'',
      FillRect (Fin 0) (Fin 0) (Fin (of_int (cv_width (fpsCanvas g))))
        (Fin (of_int (cv_height (fpsCanvas g)))),
      SetStrokeStyle ''rgba(255, 255, 255, 0.1)'',
      BeginPath]
     @ (gridColumns 0 (cv_width (fpsCanvas g)) (cv_height (fpsCanvas g))
        @ gridRows 0 (cv_width (fpsCanvas g)) (cv_height (fpsCanvas g)))
     @ (Stroke #
        concat (map (drawTarget (cv_width (fpsCanvas g)) (cv_height (fpsCanvas g))) targetFPS)
        @ [SetStrokeStyle ''rgb(0, 255, 0)'',
           BeginPath,
           MoveTo (Fin 0) (Fin (of_int (cv_height (fpsCanvas g))))])
     @ drawFPSLine (cv_width (fpsCanvas g)) (cv_height (fpsCanvas g)) (fpsArray g)
     @ [Stroke,
        SetFillStyle ''rgb(255, 255, 255)'',
        SetFont ''10px monospace'',
        FillText [Lit ''Current: '',
                  NumToString (Math_round (js_index (fpsArray g) (int (length (fpsArray g)) - 1))),
                  Lit '' FPS''] (Fin 5) (Fin 10)]"
  by (simp add: drawFPSGraph_calls_def drawFPSLine_def Let_def)

lemma drawTarget_spec:
  "drawTarget w h fps =
     [SetStrokeStyle ''rgba(255, 0, 0, 0.5)'',
      BeginPath,
      MoveTo (Fin 0) (Fin (spec_yPos (of_int h) fps)),
      LineTo (Fin (of_int w)) (Fin (spec_yPos (of_int h) fps)),
      Stroke,
      SetFillStyle ''rgb(255, 255, 255)'',
      SetFont ''8px monospace'',
      FillText [NumToString (Fin fps), Lit '' FPS''] (Fin 5) (Fin (spec_yPos (of_int h) fps - 2))]"
  by (simp add: drawTarget_def spec_yPos_def minFPS_def maxFPS_def Let_def)

lemma drawTarget_run:
  "ctx_run c (drawTarget w h fps) =
     c\<lparr>strokeStyle := ''rgba(255, 0, 0, 0.5)'',
       fillStyle := ''rgb(255, 255, 255)'',
       font := ''8px monospace'',
       path := [SegMove (Fin 0) (Fin (spec_yPos (of_int h) fps)),
                SegLine (Fin (of_int w)) (Fin (spec_yPos (of_int h) fps))],
       painted := painted c @ target_paint w h fps\<rparr>"
  unfolding drawTarget_spec by (simp add: ctx_run_simps target_paint_def)

lemma drawFPSGraph_canvas:
  assumes "cv_width c = cv_width (fpsCanvas g)" and "cv_height c = cv_height (fpsCanvas g)"
  shows "ctx_run c (drawFPSGraph_calls g) =
     \<lparr>cv_width = cv_width (fpsCanvas g),
      cv_height = cv_height (fpsCanvas g),
      strokeStyle = ''rgb(0, 255, 0)'',
      fillStyle = ''rgb(255, 255, 255)'',
      font = ''10px monospace'',
      path = SegMove (Fin 0) (Fin (of_int (cv_height (fpsCanvas g)))) # segs (drawFPSLine (cv_width (fpsCanvas g)) (cv_height (fpsCanvas g)) (fpsArray g)),
      painted =
        [FilledRect ''rgba(0, 0, 0, 0.7)'' (Fin 0) (Fin 0)
           (Fin (of_int (cv_width (fpsCanvas g)))) (Fin (of_int (cv_height (fpsCanvas g)))),
         Stroked ''rgba(255, 255, 255, 0.1)''
           (segs (gridColumns 0 (cv_width (fpsCanvas g)) (cv_height (fpsCanvas g))
                  @ gridRows 0 (cv_width (fpsCanvas g)) (cv_height (fpsCanvas g))))]
        @ concat (map (target_paint (cv_width (fpsCanvas g)) (cv_height (fpsCanvas g))) targetFPS)
        @ [Stroked ''rgb(0, 255, 0)''
             (SegMove (Fin 0) (Fin (of_int (cv_height (fpsCanvas g)))) # segs (drawFPSLine (cv_width (fpsCanvas g)) (cv_height (fpsCanvas g)) (fpsArray g))),
           FilledText ''rgb(255, 255, 255)'' ''10px monospace''
             [Lit ''Current: '',
              NumToString (Math_round (js_index (fpsArray g) (int (length (fpsArray g)) - 1))),
              Lit '' FPS''] (Fin 5) (Fin 10)]\<rparr>"
proof -
  let ?w = "cv_width (fpsCanvas g)" and ?h = "cv_height (fpsCanvas g)"
  define c1 where "c1 = ctx_run c
     [ClearRect (Fin 0) (Fin 0) (Fin (of_int ?w)) (Fin (of_int ?h)),
      SetFillStyle ''rgba(0, 0, 0, 0.7)'',
      FillRect (Fin 0) (Fin 0) (Fin (of_int ?w)) (Fin (of_int ?h)),
      SetStrokeStyle ''rgba(255, 255, 255, 0.1)'',
      BeginPath]"
  define c2 where "c2 = ctx_run c1 (gridColumns 0 ?w ?h @ gridRows 0 ?w ?h)"
  define c3 where "c3 = ctx_run c2
     (Stroke # concat (map (drawTarget ?w ?h) targetFPS)
      @ [SetStrokeStyle ''rgb(0, 255, 0)'', BeginPath, MoveTo (Fin 0) (Fin (of_int ?h))])"
  define c4 where "c4 = ctx_run c3 (drawFPSLine (cv_width (fpsCanvas g)) (cv_height (fpsCanvas g)) (fpsArray g))"
  have c1: "c1 = c\<lparr>fillStyle := ''rgba(0, 0, 0, 0.7)'',
                   strokeStyle := ''rgba(255, 255, 255, 0.1)'',
                   path := [],
                   painted := [FilledRect ''rgba(0, 0, 0, 0.7)'' (Fin 0) (Fin 0)
                                 (Fin (of_int ?w)) (Fin (of_int ?h))]\<rparr>"
    unfolding c1_def by (simp add: ctx_run_simps assms)
  have c2: "c2 = c1\<lparr>path := path c1 @ segs (gridColumns 0 ?w ?h @ gridRows 0 ?w ?h)\<rparr>"
    unfolding c2_def by (rule ctx_run_path) (rule grid_path)
  have c3: "c3 = c2\<lparr>strokeStyle := ''rgb(0, 255, 0)'',
                    fillStyle := ''rgb(255, 255, 255)'',
                    font := ''8px monospace'',
                    path := [SegMove (Fin 0) (Fin (of_int ?h))],
                    painted := painted c2 @ [Stroked (strokeStyle c2) (path c2)]
                               @ concat (map (target_paint ?w ?h) targetFPS)\<rparr>"
    unfolding c3_def by (simp add: ctx_run_simps targetFPS_def drawTarget_run)
  have c4: "c4 = c3\<lparr>path := path c3 @ segs (drawFPSLine (cv_width (fpsCanvas g)) (cv_height (fpsCanvas g)) (fpsArray g))\<rparr>"
    unfolding c4_def by (rule ctx_run_path) (rule drawFPSLine_path)
  have "ctx_run c (drawFPSGraph_calls g) = ctx_run c4
     [Stroke, SetFillStyle ''rgb(255, 255, 255)'', SetFont ''10px monospace'',
      FillText [Lit ''Current: '',
                NumToString (Math_round (js_index (fpsArray g) (int (length (fpsArray g)) - 1))),
                Lit '' FPS''] (Fin 5) (Fin 10)]"
    unfolding drawFPSGraph_calls_parts c1_def c2_def c3_def c4_def
    by (simp only: ctx_run_simps(3))
  also have "\<dots> = c4\<lparr>fillStyle := ''rgb(255, 255, 255)'', font := ''10px monospace'',
      painted := painted c4 @ [Stroked (strokeStyle c4) (path c4),
        FilledText ''rgb(255, 255, 255)'' ''10px monospace''
          [Lit ''Current: '',
           NumToString (Math_round (js_index (fpsArray g) (int (length (fpsArray g)) - 1))),
           Lit '' FPS''] (Fin 5) (Fin 10)]\<rparr>"
    by (simp add: ctx_run_simps)
  finally show ?thesis
    by (simp add: c4 c3 c2 c1 assms)
qed


section \<open>The mapping of the FPS graph\<close>

lemma drawSample_spec:
  assumes "1 < length arr" and "spec_clamp v = Some c"
  shows "drawSample w h arr v i
         = LineTo (Fin (spec_xPos (of_int w) (length arr) i)) (Fin (spec_yPos (of_int h) c))"
proof -
  have x: "js_mul (js_div (Fin (of_nat i)) (Fin (of_int (int (length arr) - 1)))) (Fin (of_int w))
           = Fin (spec_xPos (of_int w) (length arr) i)"
    using assms(1) by (simp add: spec_xPos_def)
  have cl: "Math_max (Fin minFPS) (Math_min (Fin maxFPS) v) = Fin c"
    using assms(2) by (cases v) (auto simp: minFPS_def maxFPS_def)
  show ?thesis
    unfolding drawSample_def Let_def x cl
    by (simp add: spec_yPos_def minFPS_def maxFPS_def)
qed

lemma spec_clamp_range: "spec_clamp v = Some c \<Longrightarrow> 15 \<le> c \<and> c \<le> 200"
  by (cases v) (auto split: if_splits)

lemma pushSample_set: "set (pushSample arr fps) \<subseteq> insert fps (set arr)"
proof -
  have "set (tl (arr @ [fps])) \<subseteq> set (arr @ [fps])"
    by (rule list.set_sel(2) [THEN subsetI]) simp
  then show ?thesis
    by (auto simp: pushSample_def Let_def)
qed

lemma step_no_NaN: "NaN \<notin> set (fpsArray g) \<Longrightarrow> NaN \<notin> set (fpsArray (step g i))"
proof (cases i)
  case (Frame time)
  assume "NaN \<notin> set (fpsArray g)"
  then show ?thesis
    using pushSample_set [of "fpsArray g" "js_div (Fin 1) (Fin (elapsedTimeSec time g))"]
      fps_not_NaN [of "elapsedTimeSec time g"] Frame
    by auto
qed (simp_all add: plusBtn_onclick_def minusBtn_onclick_def Let_def)

lemma run_no_NaN: "NaN \<notin> set (fpsArray g) \<Longrightarrow> NaN \<notin> set (fpsArray (run g ins))"
proof (induction ins rule: rev_induct)
  case Nil
  then show ?case by (simp add: run_def)
next
  case (snoc i ins)
  then show ?case
    using step_no_NaN [of "run g ins" i] by (simp add: run_def)
qed

text \<open>The two loops of the grid draw a line every 20 pixels, from 0 up to the size.\<close>

lemma upt_shift: "[0 ..< Suc n] = 0 # map Suc [0 ..< n]"
  by (simp add: upt_conv_Cons map_Suc_upt del: upt_Suc)

lemma gridColumns_closed:
  "gridColumns i w h =
     concat (map (\<lambda>j. [MoveTo (Fin (of_int (i + 20 * int j))) (Fin 0),
                        LineTo (Fin (of_int (i + 20 * int j))) (Fin (of_int h))])
                 [0 ..< nat ((w - i + 19) div 20)])"
proof (induction i w h rule: gridColumns.induct)
  case (1 i w h)
  show ?case
  proof (cases "i < w")
    case True
    then have n: "nat ((w - i + 19) div 20) = Suc (nat ((w - (i + 20) + 19) div 20))"
      by simp
    show ?thesis
      apply (subst gridColumns.simps)
      apply (simp only: True if_True n upt_shift 1 [OF True])
      apply (simp add: comp_def add.assoc del: upt_Suc of_int_add)
      done
  next
    case False
    then have "nat ((w - i + 19) div 20) = 0"
      by simp
    with False show ?thesis
      by (subst gridColumns.simps) simp
  qed
qed

lemma gridRows_closed:
  "gridRows i w h =
     concat (map (\<lambda>j. [MoveTo (Fin 0) (Fin (of_int (i + 20 * int j))),
                        LineTo (Fin (of_int w)) (Fin (of_int (i + 20 * int j)))])
                 [0 ..< nat ((h - i + 19) div 20)])"
proof (induction i w h rule: gridRows.induct)
  case (1 i w h)
  show ?case
  proof (cases "i < h")
    case True
    then have n: "nat ((h - i + 19) div 20) = Suc (nat ((h - (i + 20) + 19) div 20))"
      by simp
    show ?thesis
      apply (subst gridRows.simps)
      apply (simp only: True if_True n upt_shift 1 [OF True])
      apply (simp add: comp_def add.assoc del: upt_Suc of_int_add)
      done
  next
    case False
    then have "nat ((h - i + 19) div 20) = 0"
      by simp
    with False show ?thesis
      by (subst gridRows.simps) simp
  qed
qed

lemma grid_200_100:
  "gridColumns 0 200 100 =
     [MoveTo (Fin 0) (Fin 0), LineTo (Fin 0) (Fin 100),
      MoveTo (Fin 20) (Fin 0), LineTo (Fin 20) (Fin 100),
      MoveTo (Fin 40) (Fin 0), LineTo (Fin 40) (Fin 100),
      MoveTo (Fin 60) (Fin 0), LineTo (Fin 60) (Fin 100),
      MoveTo (Fin 80) (Fin 0), LineTo (Fin 80) (Fin 100),
      MoveTo (Fin 100) (Fin 0), LineTo (Fin 100) (Fin 100),
      MoveTo (Fin 120) (Fin 0), LineTo (Fin 120) (Fin 100),
      MoveTo (Fin 140) (Fin 0), LineTo (Fin 140) (Fin 100),
      MoveTo (Fin 160) (Fin 0), LineTo (Fin 160) (Fin 100),
      MoveTo (Fin 180) (Fin 0), LineTo (Fin 180) (Fin 100)]"
  "gridRows 0 200 100 =
     [MoveTo (Fin 0) (Fin 0), LineTo (Fin 200) (Fin 0),
      MoveTo (Fin 0) (Fin 20), LineTo (Fin 200) (Fin 20),
      MoveTo (Fin 0) (Fin 40), LineTo (Fin 200) (Fin 40),
      MoveTo (Fin 0) (Fin 60), LineTo (Fin 200) (Fin 60),
      MoveTo (Fin 0) (Fin 80), LineTo (Fin 200) (Fin 80)]"
  by (simp_all add: gridColumns.simps gridRows.simps)

text \<open>
  The calls of \<^verbatim>\<open>drawFPSGraph\<close> are the five steps, made for the width and the height
  of the FPS canvas, the three reference values and the history.
\<close>

lemma drawFPSGraph_calls_steps:
  "drawFPSGraph_calls g =
     spec_background (cv_width (fpsCanvas g)) (cv_height (fpsCanvas g))
     @ spec_grid (cv_width (fpsCanvas g)) (cv_height (fpsCanvas g))
     @ concat (map (spec_reference_line (cv_width (fpsCanvas g)) (cv_height (fpsCanvas g)))
                   [30, 60, 120])
     @ [SetStrokeStyle ''rgb(0, 255, 0)'', BeginPath,
        MoveTo (Fin 0) (Fin (of_int (cv_height (fpsCanvas g))))]
     @ drawFPSLine (cv_width (fpsCanvas g)) (cv_height (fpsCanvas g)) (fpsArray g)
     @ [Stroke]
     @ spec_readout (Math_round (js_index (fpsArray g) (int (length (fpsArray g)) - 1)))"
  unfolding drawFPSGraph_calls_def Let_def gridColumns_closed gridRows_closed drawTarget_spec
    targetFPS_def spec_background_def spec_grid_def spec_reference_line_def spec_readout_def
  by simp

lemma clamped_nth:
  assumes "map spec_clamp arr = map Some cs" and "i < length arr"
  shows "spec_clamp (arr ! i) = Some (cs ! i)"
proof -
  have len: "length arr = length cs"
    using assms(1) by (rule map_eq_imp_length_eq)
  have "map spec_clamp arr ! i = map Some cs ! i"
    using assms(1) by simp
  then show ?thesis
    using assms(2) len by simp
qed

lemma drawFPSLine_steps:
  assumes "map spec_clamp arr = map Some cs"
  shows "[SetStrokeStyle ''rgb(0, 255, 0)'', BeginPath, MoveTo (Fin 0) (Fin (of_int h))]
         @ drawFPSLine w h arr @ [Stroke]
         = spec_polyline w h cs"
proof -
  have len: "length arr = length cs"
    using assms by (rule map_eq_imp_length_eq)
  show ?thesis
  proof (cases "1 < length arr")
    case True
    have "map (\<lambda>i. drawSample w h arr (arr ! i) i) [0 ..< length arr]
          = map (\<lambda>i. LineTo (Fin (spec_xPos (of_int w) (length arr) i))
                              (Fin (spec_yPos (of_int h) (cs ! i)))) [0 ..< length arr]"
    proof (rule map_cong [OF refl])
      fix i
      assume "i \<in> set [0 ..< length arr]"
      then have "i < length arr"
        by simp
      then have "spec_clamp (arr ! i) = Some (cs ! i)"
        by (rule clamped_nth [OF assms])
      with True show "drawSample w h arr (arr ! i) i
          = LineTo (Fin (spec_xPos (of_int w) (length arr) i)) (Fin (spec_yPos (of_int h) (cs ! i)))"
        by (rule drawSample_spec)
    qed
    with True show ?thesis
      by (simp add: drawFPSLine_def spec_polyline_def len)
  next
    case False
    then show ?thesis
      by (simp add: drawFPSLine_def spec_polyline_def len)
  qed
qed

lemma clamped_exists: "NaN \<notin> set arr \<Longrightarrow> \<exists>cs. map spec_clamp arr = map Some cs"
proof (induction arr)
  case Nil
  show ?case by simp
next
  case (Cons v arr)
  then obtain cs where cs: "map spec_clamp arr = map Some cs"
    by auto
  from Cons.prems have "v \<noteq> NaN"
    by auto
  then obtain c where "spec_clamp v = Some c"
    by (cases v) auto
  with cs have "map spec_clamp (v # arr) = map Some (c # cs)"
    by simp
  then show ?case ..
qed

lemma clamped_range:
  assumes "map spec_clamp arr = map Some cs" and "c \<in> set cs"
  shows "15 \<le> c \<and> c \<le> 200"
proof -
  from assms(2) obtain i where i: "i < length cs" "c = cs ! i"
    by (auto simp: in_set_conv_nth)
  have "length arr = length cs"
    using assms(1) by (rule map_eq_imp_length_eq)
  with i have "spec_clamp (arr ! i) = Some c"
    using clamped_nth [OF assms(1), of i] by simp
  then show ?thesis
    by (rule spec_clamp_range)
qed

lemma js_index_last: "arr \<noteq> [] \<Longrightarrow> js_index arr (int (length arr) - 1) = Num (last arr)"
  by (cases arr rule: rev_cases) (simp_all add: js_index_def nth_append)

lemma pushSample_explicit:
  "pushSample arr fps = (if length arr < 1000 then arr @ [fps] else tl (arr @ [fps]))"
  by (simp add: pushSample_def Let_def MAX_FPS_SAMPLES_def)

lemma pushSample_nonempty: "pushSample arr fps \<noteq> []"
  by (cases arr) (simp_all add: pushSample_def Let_def MAX_FPS_SAMPLES_def)

text \<open>
  Claim C7. \<^verbatim>\<open>drawFPSGraph\<close> works with \<^verbatim>\<open>minFPS\<close> 15, \<^verbatim>\<open>maxFPS\<close> 200 and the
  reference values 30, 60 and 120. When \<open>cs\<close> are the values of the samples of the history
  clamped into the range from 15 to 200, the calls of \<^verbatim>\<open>drawFPSGraph\<close> are, for the width
  and the height of the FPS canvas: the background and the grid; for each of 30, 60 and
  120 a line from the left to the right edge at the row
  \<open>height - ((fps - 15) / (200 - 15)) * height\<close>, with its label; the line of the samples,
  which joins, when there is more than one sample, the points in column
  \<open>i / (n - 1) * width\<close> and in the row given by the same formula for the clamped sample
  \<open>i\<close>, and which stays at its starting point otherwise; and the text of the last sample.
  The clamped values exist as soon as no sample is not-a-number, which is so in every
  history that the program builds.
\<close>

theorem fps_graph_mapping:
  "minFPS = 15 \<and> maxFPS = 200 \<and> targetFPS = [30, 60, 120]
   \<and> (map spec_clamp (fpsArray g) = map Some cs \<longrightarrow>
        (\<forall>c \<in> set cs. 15 \<le> c \<and> c \<le> 200)
        \<and> drawFPSGraph_calls g =
            spec_background (cv_width (fpsCanvas g)) (cv_height (fpsCanvas g))
            @ spec_grid (cv_width (fpsCanvas g)) (cv_height (fpsCanvas g))
            @ concat (map (spec_reference_line (cv_width (fpsCanvas g)) (cv_height (fpsCanvas g)))
                          [30, 60, 120])
            @ spec_polyline (cv_width (fpsCanvas g)) (cv_height (fpsCanvas g)) cs
            @ spec_readout (if fpsArray g = [] then NaN else Math_round (Num (last (fpsArray g)))))
   \<and> (NaN \<notin> set (fpsArray g) \<longrightarrow> (\<exists>cs'. map spec_clamp (fpsArray g) = map Some cs'))
   \<and> NaN \<notin> set (fpsArray (run (initial iw ih) ins))"
proof -
  have cfg: "minFPS = 15 \<and> maxFPS = 200 \<and> targetFPS = [30, 60, 120]"
    by (simp add: minFPS_def maxFPS_def targetFPS_def)
  have reach: "NaN \<notin> set (fpsArray (run (initial iw ih) ins))"
    by (rule run_no_NaN) (simp add: initial_def)
  have ex: "NaN \<notin> set (fpsArray g) \<longrightarrow> (\<exists>cs'. map spec_clamp (fpsArray g) = map Some cs')"
    using clamped_exists by blast
  have readout: "Math_round (js_index (fpsArray g) (int (length (fpsArray g)) - 1))
                 = (if fpsArray g = [] then NaN else Math_round (Num (last (fpsArray g))))"
    by (simp add: js_index_last) (simp add: js_index_def)
  have main: "(\<forall>c \<in> set cs. 15 \<le> c \<and> c \<le> 200)
        \<and> drawFPSGraph_calls g =
            spec_background (cv_width (fpsCanvas g)) (cv_height (fpsCanvas g))
            @ spec_grid (cv_width (fpsCanvas g)) (cv_height (fpsCanvas g))
            @ concat (map (spec_reference_line (cv_width (fpsCanvas g)) (cv_height (fpsCanvas g)))
                          [30, 60, 120])
            @ spec_polyline (cv_width (fpsCanvas g)) (cv_height (fpsCanvas g)) cs
            @ spec_readout (if fpsArray g = [] then NaN else Math_round (Num (last (fpsArray g))))"
    if cl: "map spec_clamp (fpsArray g) = map Some cs"
  proof
    show "\<forall>c \<in> set cs. 15 \<le> c \<and> c \<le> 200"
      using clamped_range [OF cl] by blast
    show "drawFPSGraph_calls g =
            spec_background (cv_width (fpsCanvas g)) (cv_height (fpsCanvas g))
            @ spec_grid (cv_width (fpsCanvas g)) (cv_height (fpsCanvas g))
            @ concat (map (spec_reference_line (cv_width (fpsCanvas g)) (cv_height (fpsCanvas g)))
                          [30, 60, 120])
            @ spec_polyline (cv_width (fpsCanvas g)) (cv_height (fpsCanvas g)) cs
            @ spec_readout (if fpsArray g = [] then NaN else Math_round (Num (last (fpsArray g))))"
      unfolding drawFPSLine_steps [OF cl, symmetric] readout [symmetric]
        drawFPSGraph_calls_def Let_def gridColumns_closed gridRows_closed drawTarget_spec
        targetFPS_def spec_background_def spec_grid_def spec_reference_line_def spec_readout_def
      by simp
  qed
  show ?thesis
    using cfg reach ex main by blast
qed

lemma steps_200_100:
  "spec_background 200 100 =
     [ClearRect (Fin 0) (Fin 0) (Fin 200) (Fin 100),
      SetFillStyle ''rgba(0, 0, 0, 0.7)'',
      FillRect (Fin 0) (Fin 0) (Fin 200) (Fin 100)]"
  "spec_grid 200 100 =
     [SetStrokeStyle ''rgba(255, 255, 255, 0.1)'',
      BeginPath,
      MoveTo (Fin 0) (Fin 0),
      LineTo (Fin 0) (Fin 100),
      MoveTo (Fin 20) (Fin 0),
      LineTo (Fin 20) (Fin 100),
      MoveTo (Fin 40) (Fin 0),
      LineTo (Fin 40) (Fin 100),
      MoveTo (Fin 60) (Fin 0),
      LineTo (Fin 60) (Fin 100),
      MoveTo (Fin 80) (Fin 0),
      LineTo (Fin 80) (Fin 100),
      MoveTo (Fin 100) (Fin 0),
      LineTo (Fin 100) (Fin 100),
      MoveTo (Fin 120) (Fin 0),
      LineTo (Fin 120) (Fin 100),
      MoveTo (Fin 140) (Fin 0),
      LineTo (Fin 140) (Fin 100),
      MoveTo (Fin 160) (Fin 0),
      LineTo (Fin 160) (Fin 100),
      MoveTo (Fin 180) (Fin 0),
      LineTo (Fin 180) (Fin 100),
      MoveTo (Fin 0) (Fin 0),
      LineTo (Fin 200) (Fin 0),
      MoveTo (Fin 0) (Fin 20),
      LineTo (Fin 200) (Fin 20),
      MoveTo (Fin 0) (Fin 40),
      LineTo (Fin 200) (Fin 40),
      MoveTo (Fin 0) (Fin 60),
      LineTo (Fin 200) (Fin 60),
      MoveTo (Fin 0) (Fin 80),
      LineTo (Fin 200) (Fin 80),
      Stroke]"
  "concat (map (spec_reference_line 200 100) [30, 60, 120]) =
     [SetStrokeStyle ''rgba(255, 0, 0, 0.5)'',
      BeginPath,
      MoveTo (Fin 0) (Fin (3400 / 37)),
      LineTo (Fin 200) (Fin (3400 / 37)),
      Stroke,
      SetFillStyle ''rgb(255, 255, 255)'',
      SetFont ''8px monospace'',
      FillText [NumToString (Fin 30), Lit '' FPS''] (Fin 5) (Fin (3326 / 37)),
      SetStrokeStyle ''rgba(255, 0, 0, 0.5)'',
      BeginPath,
      MoveTo (Fin 0) (Fin (2800 / 37)),
      LineTo (Fin 200) (Fin (2800 / 37)),
      Stroke,
      SetFillStyle ''rgb(255, 255, 255)'',
      SetFont ''8px monospace'',
      FillText [NumToString (Fin 60), Lit '' FPS''] (Fin 5) (Fin (2726 / 37)),
      SetStrokeStyle ''rgba(255, 0, 0, 0.5)'',
      BeginPath,
      MoveTo (Fin 0) (Fin (1600 / 37)),
      LineTo (Fin 200) (Fin (1600 / 37)),
      Stroke,
      SetFillStyle ''rgb(255, 255, 255)'',
      SetFont ''8px monospace'',
      FillText [NumToString (Fin 120), Lit '' FPS''] (Fin 5) (Fin (1526 / 37))]"
  by (simp_all add: spec_background_def spec_grid_def spec_reference_line_def spec_yPos_def
        upt_conv_Cons)

theorem fps_graph_mapping_witness:
  "map spec_clamp (fpsArray (run (initial 800 600) [Frame 1000, Frame 1016, Frame 1216]))
     = map Some [200, 125 / 2, 15]
   \<and> drawFPSGraph_calls (run (initial 800 600) [Frame 1000, Frame 1016, Frame 1216]) =
     [ClearRect (Fin 0) (Fin 0) (Fin 200) (Fin 100),
      SetFillStyle ''rgba(0, 0, 0, 0.7)'',
      FillRect (Fin 0) (Fin 0) (Fin 200) (Fin 100),
      SetStrokeStyle ''rgba(255, 255, 255, 0.1)'',
      BeginPath,
      MoveTo (Fin 0) (Fin 0),
      LineTo (Fin 0) (Fin 100),
      MoveTo (Fin 20) (Fin 0),
      LineTo (Fin 20) (Fin 100),
      MoveTo (Fin 40) (Fin 0),
      LineTo (Fin 40) (Fin 100),
      MoveTo (Fin 60) (Fin 0),
      LineTo (Fin 60) (Fin 100),
      MoveTo (Fin 80) (Fin 0),
      LineTo (Fin 80) (Fin 100),
      MoveTo (Fin 100) (Fin 0),
      LineTo (Fin 100) (Fin 100),
      MoveTo (Fin 120) (Fin 0),
      LineTo (Fin 120) (Fin 100),
      MoveTo (Fin 140) (Fin 0),
      LineTo (Fin 140) (Fin 100),
      MoveTo (Fin 160) (Fin 0),
      LineTo (Fin 160) (Fin 100),
      MoveTo (Fin 180) (Fin 0),
      LineTo (Fin 180) (Fin 100),
      MoveTo (Fin 0) (Fin 0),
      LineTo (Fin 200) (Fin 0),
      MoveTo (Fin 0) (Fin 20),
      LineTo (Fin 200) (Fin 20),
      MoveTo (Fin 0) (Fin 40),
      LineTo (Fin 200) (Fin 40),
      MoveTo (Fin 0) (Fin 60),
      LineTo (Fin 200) (Fin 60),
      MoveTo (Fin 0) (Fin 80),
      LineTo (Fin 200) (Fin 80),
      Stroke,
      SetStrokeStyle ''rgba(255, 0, 0, 0.5)'',
      BeginPath,
      MoveTo (Fin 0) (Fin (3400 / 37)),
      LineTo (Fin 200) (Fin (3400 / 37)),
      Stroke,
      SetFillStyle ''rgb(255, 255, 255)'',
      SetFont ''8px monospace'',
      FillText [NumToString (Fin 30), Lit '' FPS''] (Fin 5) (Fin (3326 / 37)),
      SetStrokeStyle ''rgba(255, 0, 0, 0.5)'',
      BeginPath,
      MoveTo (Fin 0) (Fin (2800 / 37)),
      LineTo (Fin 200) (Fin (2800 / 37)),
      Stroke,
      SetFillStyle ''rgb(255, 255, 255)'',
      SetFont ''8px monospace'',
      FillText [NumToString (Fin 60), Lit '' FPS''] (Fin 5) (Fin (2726 / 37)),
      SetStrokeStyle ''rgba(255, 0, 0, 0.5)'',
      BeginPath,
      MoveTo (Fin 0) (Fin (1600 / 37)),
      LineTo (Fin 200) (Fin (1600 / 37)),
      Stroke,
      SetFillStyle ''rgb(255, 255, 255)'',
      SetFont ''8px monospace'',
      FillText [NumToString (Fin 120), Lit '' FPS''] (Fin 5) (Fin (1526 / 37)),
      SetStrokeStyle ''rgb(0, 255, 0)'',
      BeginPath,
      MoveTo (Fin 0) (Fin 100),
      LineTo (Fin 0) (Fin 0),
      LineTo (Fin 100) (Fin (2750 / 37)),
      LineTo (Fin 200) (Fin 100),
      Stroke,
      SetFillStyle ''rgb(255, 255, 255)'',
      SetFont ''10px monospace'',
      FillText [Lit ''Current: '', NumToString (Fin 5), Lit '' FPS''] (Fin 5) (Fin 10)]"
proof -
  let ?g = "run (initial 800 600) [Frame 1000, Frame 1016, Frame 1216]"
  have arr: "fpsArray ?g = [PosInf, Fin (125 / 2), Fin 5]"
    by (simp add: run_frames elapsedTimeSec_def initial_def pushSample_def MAX_FPS_SAMPLES_def)
  have size: "cv_width (fpsCanvas ?g) = 200" "cv_height (fpsCanvas ?g) = 100"
    by (simp_all add: run_frames initial_def initFPSCanvas_def)
  have cl: "map spec_clamp (fpsArray ?g) = map Some [200, 125 / 2, 15]"
    unfolding arr by simp
  have line: "spec_polyline 200 100 [200, 125 / 2, 15] =
     [SetStrokeStyle ''rgb(0, 255, 0)'',
      BeginPath,
      MoveTo (Fin 0) (Fin 100),
      LineTo (Fin 0) (Fin 0),
      LineTo (Fin 100) (Fin (2750 / 37)),
      LineTo (Fin 200) (Fin 100),
      Stroke]"
    by (simp add: spec_polyline_def spec_xPos_def spec_yPos_def upt_conv_Cons)
  have cur: "spec_readout (if fpsArray ?g = [] then NaN else Math_round (Num (last (fpsArray ?g))))
              = [SetFillStyle ''rgb(255, 255, 255)'',
 SetFont ''10px monospace'',
 FillText [Lit ''Current: '', NumToString (Fin 5), Lit '' FPS''] (Fin 5) (Fin 10)]"
    unfolding arr by (simp add: spec_readout_def)
  have "drawFPSGraph_calls ?g =
          spec_background 200 100 @ spec_grid 200 100
          @ concat (map (spec_reference_line 200 100) [30, 60, 120])
          @ spec_polyline 200 100 [200, 125 / 2, 15]
          @ spec_readout (if fpsArray ?g = [] then NaN else Math_round (Num (last (fpsArray ?g))))"
    using fps_graph_mapping [of ?g "[200, 125 / 2, 15]"] cl unfolding size by blast
  then have steps: "drawFPSGraph_calls ?g =
     [ClearRect (Fin 0) (Fin 0) (Fin 200) (Fin 100),
      SetFillStyle ''rgba(0, 0, 0, 0.7)'',
      FillRect (Fin 0) (Fin 0) (Fin 200) (Fin 100),
      SetStrokeStyle ''rgba(255, 255, 255, 0.1)'',
      BeginPath,
      MoveTo (Fin 0) (Fin 0),
      LineTo (Fin 0) (Fin 100),
      MoveTo (Fin 20) (Fin 0),
      LineTo (Fin 20) (Fin 100),
      MoveTo (Fin 40) (Fin 0),
      LineTo (Fin 40) (Fin 100),
      MoveTo (Fin 60) (Fin 0),
      LineTo (Fin 60) (Fin 100),
      MoveTo (Fin 80) (Fin 0),
      LineTo (Fin 80) (Fin 100),
      MoveTo (Fin 100) (Fin 0),
      LineTo (Fin 100) (Fin 100),
      MoveTo (Fin 120) (Fin 0),
      LineTo (Fin 120) (Fin 100),
      MoveTo (Fin 140) (Fin 0),
      LineTo (Fin 140) (Fin 100),
      MoveTo (Fin 160) (Fin 0),
      LineTo (Fin 160) (Fin 100),
      MoveTo (Fin 180) (Fin 0),
      LineTo (Fin 180) (Fin 100),
      MoveTo (Fin 0) (Fin 0),
      LineTo (Fin 200) (Fin 0),
      MoveTo (Fin 0) (Fin 20),
      LineTo (Fin 200) (Fin 20),
      MoveTo (Fin 0) (Fin 40),
      LineTo (Fin 200) (Fin 40),
      MoveTo (Fin 0) (Fin 60),
      LineTo (Fin 200) (Fin 60),
      MoveTo (Fin 0) (Fin 80),
      LineTo (Fin 200) (Fin 80),
      Stroke,
      SetStrokeStyle ''rgba(255, 0, 0, 0.5)'',
      BeginPath,
      MoveTo (Fin 0) (Fin (3400 / 37)),
      LineTo (Fin 200) (Fin (3400 / 37)),
      Stroke,
      SetFillStyle ''rgb(255, 255, 255)'',
      SetFont ''8px monospace'',
      FillText [NumToString (Fin 30), Lit '' FPS''] (Fin 5) (Fin (3326 / 37)),
      SetStrokeStyle ''rgba(255, 0, 0, 0.5)'',
      BeginPath,
      MoveTo (Fin 0) (Fin (2800 / 37)),
      LineTo (Fin 200) (Fin (2800 / 37)),
      Stroke,
      SetFillStyle ''rgb(255, 255, 255)'',
      SetFont ''8px monospace'',
      FillText [NumToString (Fin 60), Lit '' FPS''] (Fin 5) (Fin (2726 / 37)),
      SetStrokeStyle ''rgba(255, 0, 0, 0.5)'',
      BeginPath,
      MoveTo (Fin 0) (Fin (1600 / 37)),
      LineTo (Fin 200) (Fin (1600 / 37)),
      Stroke,
      SetFillStyle ''rgb(255, 255, 255)'',
      SetFont ''8px monospace'',
      FillText [NumToString (Fin 120), Lit '' FPS''] (Fin 5) (Fin (1526 / 37)),
      SetStrokeStyle ''rgb(0, 255, 0)'',
      BeginPath,
      MoveTo (Fin 0) (Fin 100),
      LineTo (Fin 0) (Fin 0),
      LineTo (Fin 100) (Fin (2750 / 37)),
      LineTo (Fin 200) (Fin 100),
      Stroke,
      SetFillStyle ''rgb(255, 255, 255)'',
      SetFont ''10px monospace'',
      FillText [Lit ''Current: '', NumToString (Fin 5), Lit '' FPS''] (Fin 5) (Fin 10)]"
    unfolding steps_200_100 line cur by simp
  have computed: "drawFPSGraph_calls ?g =
     [ClearRect (Fin 0) (Fin 0) (Fin 200) (Fin 100),
      SetFillStyle ''rgba(0, 0, 0, 0.7)'',
      FillRect (Fin 0) (Fin 0) (Fin 200) (Fin 100),
      SetStrokeStyle ''rgba(255, 255, 255, 0.1)'',
      BeginPath,
      MoveTo (Fin 0) (Fin 0),
      LineTo (Fin 0) (Fin 100),
      MoveTo (Fin 20) (Fin 0),
      LineTo (Fin 20) (Fin 100),
      MoveTo (Fin 40) (Fin 0),
      LineTo (Fin 40) (Fin 100),
      MoveTo (Fin 60) (Fin 0),
      LineTo (Fin 60) (Fin 100),
      MoveTo (Fin 80) (Fin 0),
      LineTo (Fin 80) (Fin 100),
      MoveTo (Fin 100) (Fin 0),
      LineTo (Fin 100) (Fin 100),
      MoveTo (Fin 120) (Fin 0),
      LineTo (Fin 120) (Fin 100),
      MoveTo (Fin 140) (Fin 0),
      LineTo (Fin 140) (Fin 100),
      MoveTo (Fin 160) (Fin 0),
      LineTo (Fin 160) (Fin 100),
      MoveTo (Fin 180) (Fin 0),
      LineTo (Fin 180) (Fin 100),
      MoveTo (Fin 0) (Fin 0),
      LineTo (Fin 200) (Fin 0),
      MoveTo (Fin 0) (Fin 20),
      LineTo (Fin 200) (Fin 20),
      MoveTo (Fin 0) (Fin 40),
      LineTo (Fin 200) (Fin 40),
      MoveTo (Fin 0) (Fin 60),
      LineTo (Fin 200) (Fin 60),
      MoveTo (Fin 0) (Fin 80),
      LineTo (Fin 200) (Fin 80),
      Stroke,
      SetStrokeStyle ''rgba(255, 0, 0, 0.5)'',
      BeginPath,
      MoveTo (Fin 0) (Fin (3400 / 37)),
      LineTo (Fin 200) (Fin (3400 / 37)),
      Stroke,
      SetFillStyle ''rgb(255, 255, 255)'',
      SetFont ''8px monospace'',
      FillText [NumToString (Fin 30), Lit '' FPS''] (Fin 5) (Fin (3326 / 37)),
      SetStrokeStyle ''rgba(255, 0, 0, 0.5)'',
      BeginPath,
      MoveTo (Fin 0) (Fin (2800 / 37)),
      LineTo (Fin 200) (Fin (2800 / 37)),
      Stroke,
      SetFillStyle ''rgb(255, 255, 255)'',
      SetFont ''8px monospace'',
      FillText [NumToString (Fin 60), Lit '' FPS''] (Fin 5) (Fin (2726 / 37)),
      SetStrokeStyle ''rgba(255, 0, 0, 0.5)'',
      BeginPath,
      MoveTo (Fin 0) (Fin (1600 / 37)),
      LineTo (Fin 200) (Fin (1600 / 37)),
      Stroke,
      SetFillStyle ''rgb(255, 255, 255)'',
      SetFont ''8px monospace'',
      FillText [NumToString (Fin 120), Lit '' FPS''] (Fin 5) (Fin (1526 / 37)),
      SetStrokeStyle ''rgb(0, 255, 0)'',
      BeginPath,
      MoveTo (Fin 0) (Fin 100),
      LineTo (Fin 0) (Fin 0),
      LineTo (Fin 100) (Fin (2750 / 37)),
      LineTo (Fin 200) (Fin 100),
      Stroke,
      SetFillStyle ''rgb(255, 255, 255)'',
      SetFont ''10px monospace'',
      FillText [Lit ''Current: '', NumToString (Fin 5), Lit '' FPS''] (Fin 5) (Fin 10)]"
    unfolding drawFPSGraph_calls_def Let_def arr size
    by (simp add: gridColumns.simps gridRows.simps targetFPS_def drawTarget_def minFPS_def
          maxFPS_def drawFPSLine_def drawSample_def js_index_def upt_conv_Cons Let_def)
  show ?thesis
    using cl steps computed by (intro conjI)
qed

section \<open>The FPS graph of an empty history\<close>

lemma segs_pairs:
  "segs (concat (map (\<lambda>j. [MoveTo (a j) (b j), LineTo (c j) (d j)]) js) @ rest)
   = concat (map (\<lambda>j. [SegMove (a j) (b j), SegLine (c j) (d j)]) js) @ segs rest"
  by (induction js) simp_all

lemma segs_grid:
  "segs (gridColumns 0 w h @ gridRows 0 w h) = spec_grid_path w h"
proof -
  have "segs (gridColumns 0 w h @ gridRows 0 w h)
        = concat (map (\<lambda>j. [SegMove (Fin (of_int (20 * int j))) (Fin 0),
                              SegLine (Fin (of_int (20 * int j))) (Fin (of_int h))])
                      [0 ..< nat ((w + 19) div 20)])
          @ segs (gridRows 0 w h @ [])"
    unfolding gridColumns_closed by (simp add: segs_pairs del: of_int_mult)
  also have "segs (gridRows 0 w h @ [])
        = concat (map (\<lambda>j. [SegMove (Fin 0) (Fin (of_int (20 * int j))),
                              SegLine (Fin (of_int w)) (Fin (of_int (20 * int j)))])
                      [0 ..< nat ((h + 19) div 20)]) @ segs []"
    unfolding gridRows_closed by (simp add: segs_pairs del: of_int_mult append_Nil2)
  finally show ?thesis
    by (simp add: spec_grid_path_def)
qed

text \<open>
  Claim C8. No call of \<^verbatim>\<open>drawFPSGraph\<close> can raise: reading \<^verbatim>\<open>fpsArray\<close> at index -1
  gives \<^verbatim>\<open>undefined\<close>, which \<^verbatim>\<open>Math.round\<close> turns into not-a-number. With an empty
  history, \<^verbatim>\<open>drawFPSGraph\<close> clears the canvas and fills the background, draws the grid,
  with a line every 20 pixels across the width and the height, and the three reference
  lines with their labels, strokes a path of the samples that consists of its starting
  point only, and writes the text of the current value with not-a-number in the place of
  the value. The canvas then shows the background, the lines of the grid, the reference
  lines and labels, the starting point of the line of the samples and that text.
\<close>

theorem empty_history_render:
  assumes "fpsArray g = []"
  shows "drawFPSGraph_calls g =
           spec_background (cv_width (fpsCanvas g)) (cv_height (fpsCanvas g))
           @ spec_grid (cv_width (fpsCanvas g)) (cv_height (fpsCanvas g))
           @ concat (map (spec_reference_line (cv_width (fpsCanvas g)) (cv_height (fpsCanvas g))) [30, 60, 120])
           @ [SetStrokeStyle ''rgb(0, 255, 0)'', BeginPath,
              MoveTo (Fin 0) (Fin (of_int (cv_height (fpsCanvas g)))), Stroke]
           @ spec_readout NaN
       \<and> painted (fpsCanvas (drawFPSGraph g)) =
           [FilledRect ''rgba(0, 0, 0, 0.7)'' (Fin 0) (Fin 0)
              (Fin (of_int (cv_width (fpsCanvas g)))) (Fin (of_int (cv_height (fpsCanvas g)))),
            Stroked ''rgba(255, 255, 255, 0.1)'' (spec_grid_path (cv_width (fpsCanvas g)) (cv_height (fpsCanvas g)))]
           @ concat (map (target_paint (cv_width (fpsCanvas g)) (cv_height (fpsCanvas g))) [30, 60, 120])
           @ [Stroked ''rgb(0, 255, 0)'' [SegMove (Fin 0) (Fin (of_int (cv_height (fpsCanvas g))))],
              FilledText ''rgb(255, 255, 255)'' ''10px monospace''
                [Lit ''Current: '', NumToString NaN, Lit '' FPS''] (Fin 5) (Fin 10)]"
proof -
  have line: "drawFPSLine (cv_width (fpsCanvas g)) (cv_height (fpsCanvas g)) (fpsArray g) = []"
    using assms by (simp add: drawFPSLine_def)
  have cur: "Math_round (js_index (fpsArray g) (int (length (fpsArray g)) - 1)) = NaN"
    using assms by (simp add: js_index_def)
  have cols: "gridColumns i w h =
       concat (map (\<lambda>j. [MoveTo (Fin (of_int (i + 20 * int j))) (Fin 0),
                          LineTo (Fin (of_int (i + 20 * int j))) (Fin (of_int h))])
                   [0 ..< nat ((w - i + 19) div 20)])" for i w h
  proof (induction i w h rule: gridColumns.induct)
    case (1 i w h)
    show ?case
    proof (cases "i < w")
      case True
      then have n: "nat ((w - i + 19) div 20) = Suc (nat ((w - (i + 20) + 19) div 20))"
        by simp
      show ?thesis
        apply (subst gridColumns.simps)
        apply (simp only: True if_True n upt_shift 1 [OF True])
        apply (simp add: comp_def add.assoc del: upt_Suc of_int_add)
        done
    next
      case False
      then have "nat ((w - i + 19) div 20) = 0"
        by simp
      with False show ?thesis
        by (subst gridColumns.simps) simp
    qed
  qed
  have rows: "gridRows i w h =
       concat (map (\<lambda>j. [MoveTo (Fin 0) (Fin (of_int (i + 20 * int j))),
                          LineTo (Fin (of_int w)) (Fin (of_int (i + 20 * int j)))])
                   [0 ..< nat ((h - i + 19) div 20)])" for i w h
  proof (induction i w h rule: gridRows.induct)
    case (1 i w h)
    show ?case
    proof (cases "i < h")
      case True
      then have n: "nat ((h - i + 19) div 20) = Suc (nat ((h - (i + 20) + 19) div 20))"
        by simp
      show ?thesis
        apply (subst gridRows.simps)
        apply (simp only: True if_True n upt_shift 1 [OF True])
        apply (simp add: comp_def add.assoc del: upt_Suc of_int_add)
        done
    next
      case False
      then have "nat ((h - i + 19) div 20) = 0"
        by simp
      with False show ?thesis
        by (subst gridRows.simps) simp
    qed
  qed
  have calls: "drawFPSGraph_calls g =
           spec_background (cv_width (fpsCanvas g)) (cv_height (fpsCanvas g))
           @ spec_grid (cv_width (fpsCanvas g)) (cv_height (fpsCanvas g))
           @ concat (map (spec_reference_line (cv_width (fpsCanvas g)) (cv_height (fpsCanvas g))) [30, 60, 120])
           @ [SetStrokeStyle ''rgb(0, 255, 0)'', BeginPath,
              MoveTo (Fin 0) (Fin (of_int (cv_height (fpsCanvas g)))), Stroke]
           @ spec_readout NaN"
    unfolding drawFPSGraph_calls_def Let_def cols rows drawTarget_spec
      targetFPS_def spec_background_def spec_grid_def spec_reference_line_def spec_readout_def
      line cur
    by simp
  have "fpsCanvas (drawFPSGraph g) = ctx_run (fpsCanvas g) (drawFPSGraph_calls g)"
    by simp
  also note drawFPSGraph_canvas [OF refl refl]
  finally have canvas: "painted (fpsCanvas (drawFPSGraph g)) =
           [FilledRect ''rgba(0, 0, 0, 0.7)'' (Fin 0) (Fin 0)
              (Fin (of_int (cv_width (fpsCanvas g)))) (Fin (of_int (cv_height (fpsCanvas g)))),
            Stroked ''rgba(255, 255, 255, 0.1)'' (spec_grid_path (cv_width (fpsCanvas g)) (cv_height (fpsCanvas g)))]
           @ concat (map (target_paint (cv_width (fpsCanvas g)) (cv_height (fpsCanvas g))) [30, 60, 120])
           @ [Stroked ''rgb(0, 255, 0)'' [SegMove (Fin 0) (Fin (of_int (cv_height (fpsCanvas g))))],
              FilledText ''rgb(255, 255, 255)'' ''10px monospace''
                [Lit ''Current: '', NumToString NaN, Lit '' FPS''] (Fin 5) (Fin 10)]"
    by (simp add: line cur segs_grid targetFPS_def)
  show ?thesis
    using calls canvas by (rule conjI)
qed

theorem empty_history_render_witness:
  "fpsArray (initial 800 600) = []
   \<and> drawFPSGraph_calls (initial 800 600) =
     [ClearRect (Fin 0) (Fin 0) (Fin 200) (Fin 100),
      SetFillStyle ''rgba(0, 0, 0, 0.7)'',
      FillRect (Fin 0) (Fin 0) (Fin 200) (Fin 100),
      SetStrokeStyle ''rgba(255, 255, 255, 0.1)'',
      BeginPath,
      MoveTo (Fin 0) (Fin 0),
      LineTo (Fin 0) (Fin 100),
      MoveTo (Fin 20) (Fin 0),
      LineTo (Fin 20) (Fin 100),
      MoveTo (Fin 40) (Fin 0),
      LineTo (Fin 40) (Fin 100),
      MoveTo (Fin 60) (Fin 0),
      LineTo (Fin 60) (Fin 100),
      MoveTo (Fin 80) (Fin 0),
      LineTo (Fin 80) (Fin 100),
      MoveTo (Fin 100) (Fin 0),
      LineTo (Fin 100) (Fin 100),
      MoveTo (Fin 120) (Fin 0),
      LineTo (Fin 120) (Fin 100),
      MoveTo (Fin 140) (Fin 0),
      LineTo (Fin 140) (Fin 100),
      MoveTo (Fin 160) (Fin 0),
      LineTo (Fin 160) (Fin 100),
      MoveTo (Fin 180) (Fin 0),
      LineTo (Fin 180) (Fin 100),
      MoveTo (Fin 0) (Fin 0),
      LineTo (Fin 200) (Fin 0),
      MoveTo (Fin 0) (Fin 20),
      LineTo (Fin 200) (Fin 20),
      MoveTo (Fin 0) (Fin 40),
      LineTo (Fin 200) (Fin 40),
      MoveTo (Fin 0) (Fin 60),
      LineTo (Fin 200) (Fin 60),
      MoveTo (Fin 0) (Fin 80),
      LineTo (Fin 200) (Fin 80),
      Stroke,
      SetStrokeStyle ''rgba(255, 0, 0, 0.5)'',
      BeginPath,
      MoveTo (Fin 0) (Fin (3400 / 37)),
      LineTo (Fin 200) (Fin (3400 / 37)),
      Stroke,
      SetFillStyle ''rgb(255, 255, 255)'',
      SetFont ''8px monospace'',
      FillText [NumToString (Fin 30), Lit '' FPS''] (Fin 5) (Fin (3326 / 37)),
      SetStrokeStyle ''rgba(255, 0, 0, 0.5)'',
      BeginPath,
      MoveTo (Fin 0) (Fin (2800 / 37)),
      LineTo (Fin 200) (Fin (2800 / 37)),
      Stroke,
      SetFillStyle ''rgb(255, 255, 255)'',
      SetFont ''8px monospace'',
      FillText [NumToString (Fin 60), Lit '' FPS''] (Fin 5) (Fin (2726 / 37)),
      SetStrokeStyle ''rgba(255, 0, 0, 0.5)'',
      BeginPath,
      MoveTo (Fin 0) (Fin (1600 / 37)),
      LineTo (Fin 200) (Fin (1600 / 37)),
      Stroke,
      SetFillStyle ''rgb(255, 255, 255)'',
      SetFont ''8px monospace'',
      FillText [NumToString (Fin 120), Lit '' FPS''] (Fin 5) (Fin (1526 / 37)),
      SetStrokeStyle ''rgb(0, 255, 0)'',
      BeginPath,
      MoveTo (Fin 0) (Fin 100),
      Stroke,
      SetFillStyle ''rgb(255, 255, 255)'',
      SetFont ''10px monospace'',
      FillText [Lit ''Current: '', NumToString NaN, Lit '' FPS''] (Fin 5) (Fin 10)]
   \<and> painted (fpsCanvas (drawFPSGraph (initial 800 600))) =
     [FilledRect ''rgba(0, 0, 0, 0.7)'' (Fin 0) (Fin 0) (Fin 200) (Fin 100),
      Stroked ''rgba(255, 255, 255, 0.1)''
        [SegMove (Fin 0) (Fin 0),
         SegLine (Fin 0) (Fin 100),
         SegMove (Fin 20) (Fin 0),
         SegLine (Fin 20) (Fin 100),
         SegMove (Fin 40) (Fin 0),
         SegLine (Fin 40) (Fin 100),
         SegMove (Fin 60) (Fin 0),
         SegLine (Fin 60) (Fin 100),
         SegMove (Fin 80) (Fin 0),
         SegLine (Fin 80) (Fin 100),
         SegMove (Fin 100) (Fin 0),
         SegLine (Fin 100) (Fin 100),
         SegMove (Fin 120) (Fin 0),
         SegLine (Fin 120) (Fin 100),
         SegMove (Fin 140) (Fin 0),
         SegLine (Fin 140) (Fin 100),
         SegMove (Fin 160) (Fin 0),
         SegLine (Fin 160) (Fin 100),
         SegMove (Fin 180) (Fin 0),
         SegLine (Fin 180) (Fin 100),
         SegMove (Fin 0) (Fin 0),
         SegLine (Fin 200) (Fin 0),
         SegMove (Fin 0) (Fin 20),
         SegLine (Fin 200) (Fin 20),
         SegMove (Fin 0) (Fin 40),
         SegLine (Fin 200) (Fin 40),
         SegMove (Fin 0) (Fin 60),
         SegLine (Fin 200) (Fin 60),
         SegMove (Fin 0) (Fin 80),
         SegLine (Fin 200) (Fin 80)],
      Stroked ''rgba(255, 0, 0, 0.5)''
        [SegMove (Fin 0) (Fin (3400 / 37)), SegLine (Fin 200) (Fin (3400 / 37))],
      FilledText ''rgb(255, 255, 255)'' ''8px monospace'' [NumToString (Fin 30), Lit '' FPS'']
        (Fin 5) (Fin (3326 / 37)),
      Stroked ''rgba(255, 0, 0, 0.5)''
        [SegMove (Fin 0) (Fin (2800 / 37)), SegLine (Fin 200) (Fin (2800 / 37))],
      FilledText ''rgb(255, 255, 255)'' ''8px monospace'' [NumToString (Fin 60), Lit '' FPS'']
        (Fin 5) (Fin (2726 / 37)),
      Stroked ''rgba(255, 0, 0, 0.5)''
        [SegMove (Fin 0) (Fin (1600 / 37)), SegLine (Fin 200) (Fin (1600 / 37))],
      FilledText ''rgb(255, 255, 255)'' ''8px monospace'' [NumToString (Fin 120), Lit '' FPS'']
        (Fin 5) (Fin (1526 / 37)),
      Stroked ''rgb(0, 255, 0)'' [SegMove (Fin 0) (Fin 100)],
      FilledText ''rgb(255, 255, 255)'' ''10px monospace''
        [Lit ''Current: '', NumToString NaN, Lit '' FPS''] (Fin 5) (Fin 10)]"
proof -
  have e: "fpsArray (initial 800 600) = []"
    by (simp add: initial_def)
  have size: "cv_width (fpsCanvas (initial 800 600)) = 200"
    "cv_height (fpsCanvas (initial 800 600)) = 100"
    by (simp_all add: initial_def initFPSCanvas_def)
  note t = empty_history_render [OF e, unfolded size]
  have path: "spec_grid_path 200 100 =
     [SegMove (Fin 0) (Fin 0),
      SegLine (Fin 0) (Fin 100),
      SegMove (Fin 20) (Fin 0),
      SegLine (Fin 20) (Fin 100),
      SegMove (Fin 40) (Fin 0),
      SegLine (Fin 40) (Fin 100),
      SegMove (Fin 60) (Fin 0),
      SegLine (Fin 60) (Fin 100),
      SegMove (Fin 80) (Fin 0),
      SegLine (Fin 80) (Fin 100),
      SegMove (Fin 100) (Fin 0),
      SegLine (Fin 100) (Fin 100),
      SegMove (Fin 120) (Fin 0),
      SegLine (Fin 120) (Fin 100),
      SegMove (Fin 140) (Fin 0),
      SegLine (Fin 140) (Fin 100),
      SegMove (Fin 160) (Fin 0),
      SegLine (Fin 160) (Fin 100),
      SegMove (Fin 180) (Fin 0),
      SegLine (Fin 180) (Fin 100),
      SegMove (Fin 0) (Fin 0),
      SegLine (Fin 200) (Fin 0),
      SegMove (Fin 0) (Fin 20),
      SegLine (Fin 200) (Fin 20),
      SegMove (Fin 0) (Fin 40),
      SegLine (Fin 200) (Fin 40),
      SegMove (Fin 0) (Fin 60),
      SegLine (Fin 200) (Fin 60),
      SegMove (Fin 0) (Fin 80),
      SegLine (Fin 200) (Fin 80)]"
    by (simp add: spec_grid_path_def upt_conv_Cons)
  have cur: "spec_readout NaN =
     [SetFillStyle ''rgb(255, 255, 255)'',
      SetFont ''10px monospace'',
      FillText [Lit ''Current: '', NumToString NaN, Lit '' FPS''] (Fin 5) (Fin 10)]"
    by (simp add: spec_readout_def)
  have calls: "drawFPSGraph_calls (initial 800 600) =
     [ClearRect (Fin 0) (Fin 0) (Fin 200) (Fin 100),
      SetFillStyle ''rgba(0, 0, 0, 0.7)'',
      FillRect (Fin 0) (Fin 0) (Fin 200) (Fin 100),
      SetStrokeStyle ''rgba(255, 255, 255, 0.1)'',
      BeginPath,
      MoveTo (Fin 0) (Fin 0),
      LineTo (Fin 0) (Fin 100),
      MoveTo (Fin 20) (Fin 0),
      LineTo (Fin 20) (Fin 100),
      MoveTo (Fin 40) (Fin 0),
      LineTo (Fin 40) (Fin 100),
      MoveTo (Fin 60) (Fin 0),
      LineTo (Fin 60) (Fin 100),
      MoveTo (Fin 80) (Fin 0),
      LineTo (Fin 80) (Fin 100),
      MoveTo (Fin 100) (Fin 0),
      LineTo (Fin 100) (Fin 100),
      MoveTo (Fin 120) (Fin 0),
      LineTo (Fin 120) (Fin 100),
      MoveTo (Fin 140) (Fin 0),
      LineTo (Fin 140) (Fin 100),
      MoveTo (Fin 160) (Fin 0),
      LineTo (Fin 160) (Fin 100),
      MoveTo (Fin 180) (Fin 0),
      LineTo (Fin 180) (Fin 100),
      MoveTo (Fin 0) (Fin 0),
      LineTo (Fin 200) (Fin 0),
      MoveTo (Fin 0) (Fin 20),
      LineTo (Fin 200) (Fin 20),
      MoveTo (Fin 0) (Fin 40),
      LineTo (Fin 200) (Fin 40),
      MoveTo (Fin 0) (Fin 60),
      LineTo (Fin 200) (Fin 60),
      MoveTo (Fin 0) (Fin 80),
      LineTo (Fin 200) (Fin 80),
      Stroke,
      SetStrokeStyle ''rgba(255, 0, 0, 0.5)'',
      BeginPath,
      MoveTo (Fin 0) (Fin (3400 / 37)),
      LineTo (Fin 200) (Fin (3400 / 37)),
      Stroke,
      SetFillStyle ''rgb(255, 255, 255)'',
      SetFont ''8px monospace'',
      FillText [NumToString (Fin 30), Lit '' FPS''] (Fin 5) (Fin (3326 / 37)),
      SetStrokeStyle ''rgba(255, 0, 0, 0.5)'',
      BeginPath,
      MoveTo (Fin 0) (Fin (2800 / 37)),
      LineTo (Fin 200) (Fin (2800 / 37)),
      Stroke,
      SetFillStyle ''rgb(255, 255, 255)'',
      SetFont ''8px monospace'',
      FillText [NumToString (Fin 60), Lit '' FPS''] (Fin 5) (Fin (2726 / 37)),
      SetStrokeStyle ''rgba(255, 0, 0, 0.5)'',
      BeginPath,
      MoveTo (Fin 0) (Fin (1600 / 37)),
      LineTo (Fin 200) (Fin (1600 / 37)),
      Stroke,
      SetFillStyle ''rgb(255, 255, 255)'',
      SetFont ''8px monospace'',
      FillText [NumToString (Fin 120), Lit '' FPS''] (Fin 5) (Fin (1526 / 37)),
      SetStrokeStyle ''rgb(0, 255, 0)'',
      BeginPath,
      MoveTo (Fin 0) (Fin 100),
      Stroke,
      SetFillStyle ''rgb(255, 255, 255)'',
      SetFont ''10px monospace'',
      FillText [Lit ''Current: '', NumToString NaN, Lit '' FPS''] (Fin 5) (Fin 10)]"
    using t [THEN conjunct1] unfolding steps_200_100 cur by simp
  have canvas: "painted (fpsCanvas (drawFPSGraph (initial 800 600))) =
     [FilledRect ''rgba(0, 0, 0, 0.7)'' (Fin 0) (Fin 0) (Fin 200) (Fin 100),
      Stroked ''rgba(255, 255, 255, 0.1)''
        [SegMove (Fin 0) (Fin 0),
         SegLine (Fin 0) (Fin 100),
         SegMove (Fin 20) (Fin 0),
         SegLine (Fin 20) (Fin 100),
         SegMove (Fin 40) (Fin 0),
         SegLine (Fin 40) (Fin 100),
         SegMove (Fin 60) (Fin 0),
         SegLine (Fin 60) (Fin 100),
         SegMove (Fin 80) (Fin 0),
         SegLine (Fin 80) (Fin 100),
         SegMove (Fin 100) (Fin 0),
         SegLine (Fin 100) (Fin 100),
         SegMove (Fin 120) (Fin 0),
         SegLine (Fin 120) (Fin 100),
         SegMove (Fin 140) (Fin 0),
         SegLine (Fin 140) (Fin 100),
         SegMove (Fin 160) (Fin 0),
         SegLine (Fin 160) (Fin 100),
         SegMove (Fin 180) (Fin 0),
         SegLine (Fin 180) (Fin 100),
         SegMove (Fin 0) (Fin 0),
         SegLine (Fin 200) (Fin 0),
         SegMove (Fin 0) (Fin 20),
         SegLine (Fin 200) (Fin 20),
         SegMove (Fin 0) (Fin 40),
         SegLine (Fin 200) (Fin 40),
         SegMove (Fin 0) (Fin 60),
         SegLine (Fin 200) (Fin 60),
         SegMove (Fin 0) (Fin 80),
         SegLine (Fin 200) (Fin 80)],
      Stroked ''rgba(255, 0, 0, 0.5)''
        [SegMove (Fin 0) (Fin (3400 / 37)), SegLine (Fin 200) (Fin (3400 / 37))],
      FilledText ''rgb(255, 255, 255)'' ''8px monospace'' [NumToString (Fin 30), Lit '' FPS'']
        (Fin 5) (Fin (3326 / 37)),
      Stroked ''rgba(255, 0, 0, 0.5)''
        [SegMove (Fin 0) (Fin (2800 / 37)), SegLine (Fin 200) (Fin (2800 / 37))],
      FilledText ''rgb(255, 255, 255)'' ''8px monospace'' [NumToString (Fin 60), Lit '' FPS'']
        (Fin 5) (Fin (2726 / 37)),
      Stroked ''rgba(255, 0, 0, 0.5)''
        [SegMove (Fin 0) (Fin (1600 / 37)), SegLine (Fin 200) (Fin (1600 / 37))],
      FilledText ''rgb(255, 255, 255)'' ''8px monospace'' [NumToString (Fin 120), Lit '' FPS'']
        (Fin 5) (Fin (1526 / 37)),
      Stroked ''rgb(0, 255, 0)'' [SegMove (Fin 0) (Fin 100)],
      FilledText ''rgb(255, 255, 255)'' ''10px monospace''
        [Lit ''Current: '', NumToString NaN, Lit '' FPS''] (Fin 5) (Fin 10)]"
    using t [THEN conjunct2] unfolding path by (simp add: target_paint_def spec_yPos_def)
  have computed: "drawFPSGraph_calls (initial 800 600) =
     [ClearRect (Fin 0) (Fin 0) (Fin 200) (Fin 100),
      SetFillStyle ''rgba(0, 0, 0, 0.7)'',
      FillRect (Fin 0) (Fin 0) (Fin 200) (Fin 100),
      SetStrokeStyle ''rgba(255, 255, 255, 0.1)'',
      BeginPath,
      MoveTo (Fin 0) (Fin 0),
      LineTo (Fin 0) (Fin 100),
      MoveTo (Fin 20) (Fin 0),
      LineTo (Fin 20) (Fin 100),
      MoveTo (Fin 40) (Fin 0),
      LineTo (Fin 40) (Fin 100),
      MoveTo (Fin 60) (Fin 0),
      LineTo (Fin 60) (Fin 100),
      MoveTo (Fin 80) (Fin 0),
      LineTo (Fin 80) (Fin 100),
      MoveTo (Fin 100) (Fin 0),
      LineTo (Fin 100) (Fin 100),
      MoveTo (Fin 120) (Fin 0),
      LineTo (Fin 120) (Fin 100),
      MoveTo (Fin 140) (Fin 0),
      LineTo (Fin 140) (Fin 100),
      MoveTo (Fin 160) (Fin 0),
      LineTo (Fin 160) (Fin 100),
      MoveTo (Fin 180) (Fin 0),
      LineTo (Fin 180) (Fin 100),
      MoveTo (Fin 0) (Fin 0),
      LineTo (Fin 200) (Fin 0),
      MoveTo (Fin 0) (Fin 20),
      LineTo (Fin 200) (Fin 20),
      MoveTo (Fin 0) (Fin 40),
      LineTo (Fin 200) (Fin 40),
      MoveTo (Fin 0) (Fin 60),
      LineTo (Fin 200) (Fin 60),
      MoveTo (Fin 0) (Fin 80),
      LineTo (Fin 200) (Fin 80),
      Stroke,
      SetStrokeStyle ''rgba(255, 0, 0, 0.5)'',
      BeginPath,
      MoveTo (Fin 0) (Fin (3400 / 37)),
      LineTo (Fin 200) (Fin (3400 / 37)),
      Stroke,
      SetFillStyle ''rgb(255, 255, 255)'',
      SetFont ''8px monospace'',
      FillText [NumToString (Fin 30), Lit '' FPS''] (Fin 5) (Fin (3326 / 37)),
      SetStrokeStyle ''rgba(255, 0, 0, 0.5)'',
      BeginPath,
      MoveTo (Fin 0) (Fin (2800 / 37)),
      LineTo (Fin 200) (Fin (2800 / 37)),
      Stroke,
      SetFillStyle ''rgb(255, 255, 255)'',
      SetFont ''8px monospace'',
      FillText [NumToString (Fin 60), Lit '' FPS''] (Fin 5) (Fin (2726 / 37)),
      SetStrokeStyle ''rgba(255, 0, 0, 0.5)'',
      BeginPath,
      MoveTo (Fin 0) (Fin (1600 / 37)),
      LineTo (Fin 200) (Fin (1600 / 37)),
      Stroke,
      SetFillStyle ''rgb(255, 255, 255)'',
      SetFont ''8px monospace'',
      FillText [NumToString (Fin 120), Lit '' FPS''] (Fin 5) (Fin (1526 / 37)),
      SetStrokeStyle ''rgb(0, 255, 0)'',
      BeginPath,
      MoveTo (Fin 0) (Fin 100),
      Stroke,
      SetFillStyle ''rgb(255, 255, 255)'',
      SetFont ''10px monospace'',
      FillText [Lit ''Current: '', NumToString NaN, Lit '' FPS''] (Fin 5) (Fin 10)]"
    by (simp add: drawFPSGraph_calls_def initial_def initFPSCanvas_def gridColumns.simps
          gridRows.simps targetFPS_def drawTarget_def minFPS_def maxFPS_def drawFPSLine_def
          js_index_def Let_def)
  have computed_canvas: "painted (fpsCanvas (drawFPSGraph (initial 800 600))) =
     [FilledRect ''rgba(0, 0, 0, 0.7)'' (Fin 0) (Fin 0) (Fin 200) (Fin 100),
      Stroked ''rgba(255, 255, 255, 0.1)''
        [SegMove (Fin 0) (Fin 0),
         SegLine (Fin 0) (Fin 100),
         SegMove (Fin 20) (Fin 0),
         SegLine (Fin 20) (Fin 100),
         SegMove (Fin 40) (Fin 0),
         SegLine (Fin 40) (Fin 100),
         SegMove (Fin 60) (Fin 0),
         SegLine (Fin 60) (Fin 100),
         SegMove (Fin 80) (Fin 0),
         SegLine (Fin 80) (Fin 100),
         SegMove (Fin 100) (Fin 0),
         SegLine (Fin 100) (Fin 100),
         SegMove (Fin 120) (Fin 0),
         SegLine (Fin 120) (Fin 100),
         SegMove (Fin 140) (Fin 0),
         SegLine (Fin 140) (Fin 100),
         SegMove (Fin 160) (Fin 0),
         SegLine (Fin 160) (Fin 100),
         SegMove (Fin 180) (Fin 0),
         SegLine (Fin 180) (Fin 100),
         SegMove (Fin 0) (Fin 0),
         SegLine (Fin 200) (Fin 0),
         SegMove (Fin 0) (Fin 20),
         SegLine (Fin 200) (Fin 20),
         SegMove (Fin 0) (Fin 40),
         SegLine (Fin 200) (Fin 40),
         SegMove (Fin 0) (Fin 60),
         SegLine (Fin 200) (Fin 60),
         SegMove (Fin 0) (Fin 80),
         SegLine (Fin 200) (Fin 80)],
      Stroked ''rgba(255, 0, 0, 0.5)''
        [SegMove (Fin 0) (Fin (3400 / 37)), SegLine (Fin 200) (Fin (3400 / 37))],
      FilledText ''rgb(255, 255, 255)'' ''8px monospace'' [NumToString (Fin 30), Lit '' FPS'']
        (Fin 5) (Fin (3326 / 37)),
      Stroked ''rgba(255, 0, 0, 0.5)''
        [SegMove (Fin 0) (Fin (2800 / 37)), SegLine (Fin 200) (Fin (2800 / 37))],
      FilledText ''rgb(255, 255, 255)'' ''8px monospace'' [NumToString (Fin 60), Lit '' FPS'']
        (Fin 5) (Fin (2726 / 37)),
      Stroked ''rgba(255, 0, 0, 0.5)''
        [SegMove (Fin 0) (Fin (1600 / 37)), SegLine (Fin 200) (Fin (1600 / 37))],
      FilledText ''rgb(255, 255, 255)'' ''8px monospace'' [NumToString (Fin 120), Lit '' FPS'']
        (Fin 5) (Fin (1526 / 37)),
      Stroked ''rgb(0, 255, 0)'' [SegMove (Fin 0) (Fin 100)],
      FilledText ''rgb(255, 255, 255)'' ''10px monospace''
        [Lit ''Current: '', NumToString NaN, Lit '' FPS''] (Fin 5) (Fin 10)]"
    unfolding drawFPSGraph_fields computed
    by (simp add: ctx_run_def initial_def initFPSCanvas_def)
  show ?thesis
    using e calls canvas computed computed_canvas by (intro conjI)
qed

section \<open>The FPS graph depends on the history and the size of its canvas only\<close>

lemma drawFPSGraph_again:
  "fpsCanvas (drawFPSGraph (drawFPSGraph g)) = fpsCanvas (drawFPSGraph g)"
proof -
  have same: "drawFPSGraph_calls (drawFPSGraph g) = drawFPSGraph_calls g"
    by (rule drawFPSGraph_calls_cong) simp_all
  have "ctx_run (ctx_run (fpsCanvas g) (drawFPSGraph_calls g)) (drawFPSGraph_calls g)
        = ctx_run (fpsCanvas g) (drawFPSGraph_calls g)"
    by (simp add: drawFPSGraph_canvas)
  then show ?thesis
    by (simp add: same)
qed

lemma renderLoop_paints: "painted (fpsCanvas (fst (renderLoop time g))) \<noteq> []"
proof -
  have "fpsCanvas (fst (renderLoop time g))
        = ctx_run (fpsCanvas g) (drawFPSGraph_calls (fst (renderLoop time g)))"
    by (rule renderLoop_canvas)
  also have "painted \<dots> \<noteq> []"
    by (subst drawFPSGraph_canvas) simp_all
  finally show ?thesis .
qed

text \<open>
  Claim C9. \<^verbatim>\<open>drawFPSGraph\<close> reads the history and the size of the FPS canvas, and
  nothing else. In two states of the program with the same history and the same size of
  the FPS canvas it makes the same calls, and it leaves the canvas in the same state,
  with the same things painted, whatever had been painted and whatever styles, font and
  path had been left before. Drawing a second time at once changes nothing, and the FPS
  canvas is the only part of the state that \<^verbatim>\<open>drawFPSGraph\<close> changes.
\<close>

theorem drawFPSGraph_deterministic:
  assumes "fpsArray g1 = fpsArray g2"
    and "cv_width (fpsCanvas g1) = cv_width (fpsCanvas g2)"
    and "cv_height (fpsCanvas g1) = cv_height (fpsCanvas g2)"
  shows "drawFPSGraph_calls g1 = drawFPSGraph_calls g2
       \<and> fpsCanvas (drawFPSGraph g1) = fpsCanvas (drawFPSGraph g2)
       \<and> drawFPSGraph (drawFPSGraph g1) = drawFPSGraph g1
       \<and> (drawFPSGraph g1)\<lparr>fpsCanvas := fpsCanvas g1\<rparr> = g1"
proof -
  have calls: "drawFPSGraph_calls g1 = drawFPSGraph_calls g2"
    using assms by (rule drawFPSGraph_calls_cong)
  have "ctx_run (fpsCanvas g1) (drawFPSGraph_calls g2) = ctx_run (fpsCanvas g2) (drawFPSGraph_calls g2)"
    using assms by (simp add: drawFPSGraph_canvas)
  then have canvas: "fpsCanvas (drawFPSGraph g1) = fpsCanvas (drawFPSGraph g2)"
    by (simp add: calls)
  have again: "drawFPSGraph (drawFPSGraph g1) = drawFPSGraph g1"
    using drawFPSGraph_again [of g1] by (simp add: drawFPSGraph_def)
  have rest: "(drawFPSGraph g1)\<lparr>fpsCanvas := fpsCanvas g1\<rparr> = g1"
    by (simp add: drawFPSGraph_def)
  show ?thesis
    using calls canvas again rest by simp
qed

theorem drawFPSGraph_deterministic_witness:
  "fpsArray (run (initial 800 600) [Frame 1000, Frame 1040])
     = fpsArray ((initial 1024 768)\<lparr>fpsArray := [PosInf, Fin 25], lastTime := 7\<rparr>)
   \<and> cv_width (fpsCanvas (run (initial 800 600) [Frame 1000, Frame 1040])) = 200
   \<and> cv_width (fpsCanvas ((initial 1024 768)\<lparr>fpsArray := [PosInf, Fin 25], lastTime := 7\<rparr>)) = 200
   \<and> cv_height (fpsCanvas (run (initial 800 600) [Frame 1000, Frame 1040])) = 100
   \<and> cv_height (fpsCanvas ((initial 1024 768)\<lparr>fpsArray := [PosInf, Fin 25], lastTime := 7\<rparr>)) = 100
   \<and> painted (fpsCanvas ((initial 1024 768)\<lparr>fpsArray := [PosInf, Fin 25], lastTime := 7\<rparr>)) = []
   \<and> painted (fpsCanvas (run (initial 800 600) [Frame 1000, Frame 1040])) \<noteq> []
   \<and> fpsCanvas (drawFPSGraph (run (initial 800 600) [Frame 1000, Frame 1040]))
       = fpsCanvas (drawFPSGraph ((initial 1024 768)\<lparr>fpsArray := [PosInf, Fin 25], lastTime := 7\<rparr>))"
proof -
  let ?g1 = "run (initial 800 600) [Frame 1000, Frame 1040]"
  let ?g2 = "(initial 1024 768)\<lparr>fpsArray := [PosInf, Fin 25], lastTime := 7\<rparr>"
  have arr: "fpsArray ?g1 = fpsArray ?g2"
    by (simp add: run_frames elapsedTimeSec_def initial_def pushSample_def MAX_FPS_SAMPLES_def)
  have w: "cv_width (fpsCanvas ?g1) = 200" "cv_width (fpsCanvas ?g2) = 200"
    by (simp_all add: run_frames initial_def initFPSCanvas_def)
  have h: "cv_height (fpsCanvas ?g1) = 100" "cv_height (fpsCanvas ?g2) = 100"
    by (simp_all add: run_frames initial_def initFPSCanvas_def)
  have p2: "painted (fpsCanvas ?g2) = []"
    by (simp add: initial_def initFPSCanvas_def)
  have p1: "painted (fpsCanvas ?g1) \<noteq> []"
    unfolding run_frames step.simps by (rule renderLoop_paints)
  have ww: "cv_width (fpsCanvas ?g1) = cv_width (fpsCanvas ?g2)"
    by (simp only: w)
  have hh: "cv_height (fpsCanvas ?g1) = cv_height (fpsCanvas ?g2)"
    by (simp only: h)
  have "fpsCanvas (drawFPSGraph ?g1) = fpsCanvas (drawFPSGraph ?g2)"
    by (rule drawFPSGraph_deterministic [OF arr ww hh, THEN conjunct2, THEN conjunct1])
  then show ?thesis
    using arr w h p1 p2 by (intro conjI)
qed

section \<open>The order of a frame\<close>

text \<open>
  Claim C5. Every frame runs in the same order. The elapsed time is computed from the
  timestamp of the previous frame, which is then replaced by the timestamp of this
  frame. The sample \<open>1 / elapsedTimeSec\<close> is appended to the history, whose first entry
  is dropped when it held 1000 already, so that the sample is the last entry. The FPS
  graph is redrawn from the history as it is after that: its line of the samples is the
  one of the new history and its text shows the sample just recorded. Then come the
  advance of the state machine and of the artboard by the elapsed time and the draws.
  The last call, made in every frame whatever the state and the timestamp, and made
  once, is the request of the next frame.
\<close>

theorem tick_order:
  "elapsedTimeSec time g = (time - (if lastTime g = 0 then time else lastTime g)) / 1000
   \<and> lastTime (fst (renderLoop time g)) = time
   \<and> fpsArray (fst (renderLoop time g))
       = (if length (fpsArray g) < 1000
          then fpsArray g @ [(js_div (Fin 1) (Fin (elapsedTimeSec time g)))]
          else tl (fpsArray g @ [(js_div (Fin 1) (Fin (elapsedTimeSec time g)))]))
   \<and> last (fpsArray (fst (renderLoop time g))) = js_div (Fin 1) (Fin (elapsedTimeSec time g))
   \<and> drawFPSGraph_calls (fst (renderLoop time g))
       = spec_background (cv_width (fpsCanvas g)) (cv_height (fpsCanvas g))
         @ spec_grid (cv_width (fpsCanvas g)) (cv_height (fpsCanvas g))
         @ concat (map (spec_reference_line (cv_width (fpsCanvas g)) (cv_height (fpsCanvas g))) [30, 60, 120])
         @ [SetStrokeStyle ''rgb(0, 255, 0)'', BeginPath, MoveTo (Fin 0) (Fin (of_int (cv_height (fpsCanvas g))))]
         @ drawFPSLine (cv_width (fpsCanvas g)) (cv_height (fpsCanvas g)) (fpsArray (fst (renderLoop time g)))
         @ [Stroke]
         @ spec_readout (Math_round (Num (js_div (Fin 1) (Fin (elapsedTimeSec time g)))))
   \<and> fpsCanvas (fst (renderLoop time g))
       = ctx_run (fpsCanvas g) (drawFPSGraph_calls (fst (renderLoop time g)))
   \<and> snd (renderLoop time g)
       = map Ctx (drawFPSGraph_calls (fst (renderLoop time g)))
         @ [RendererClear,
            StateMachineAdvance (elapsedTimeSec time g),
            ArtboardAdvance (elapsedTimeSec time g),
            RendererSave,
            RendererAlign Contain Center 0 0 (canvas_width g) (canvas_height g)]
         @ replicate (nat (renderCount g)) ArtboardDraw
         @ [RendererRestore, RendererFlush, ResolveAnimationFrame, RequestAnimationFrame]
   \<and> last (snd (renderLoop time g)) = RequestAnimationFrame
   \<and> count_list (snd (renderLoop time g)) RequestAnimationFrame = 1"
proof -
  let ?fps = "js_div (Fin 1) (Fin (elapsedTimeSec time g))"
  have e: "elapsedTimeSec time g
           = (time - (if lastTime g = 0 then time else lastTime g)) / 1000"
    by (simp add: elapsedTimeSec_def)
  have arr: "fpsArray (fst (renderLoop time g))
             = (if length (fpsArray g) < 1000 then fpsArray g @ [?fps] else tl (fpsArray g @ [?fps]))"
    by (simp add: pushSample_def Let_def MAX_FPS_SAMPLES_def)
  have lst: "last (fpsArray (fst (renderLoop time g))) = ?fps"
    unfolding arr by (cases "fpsArray g") simp_all
  have "fpsArray (fst (renderLoop time g)) \<noteq> []"
    unfolding arr by (cases "fpsArray g") simp_all
  then have "js_index (fpsArray (fst (renderLoop time g)))
          (int (length (fpsArray (fst (renderLoop time g)))) - 1)
        = Num (last (fpsArray (fst (renderLoop time g))))"
    by (rule js_index_last)
  then have graph: "drawFPSGraph_calls (fst (renderLoop time g))
       = spec_background (cv_width (fpsCanvas g)) (cv_height (fpsCanvas g))
         @ spec_grid (cv_width (fpsCanvas g)) (cv_height (fpsCanvas g))
         @ concat (map (spec_reference_line (cv_width (fpsCanvas g)) (cv_height (fpsCanvas g))) [30, 60, 120])
         @ [SetStrokeStyle ''rgb(0, 255, 0)'', BeginPath, MoveTo (Fin 0) (Fin (of_int (cv_height (fpsCanvas g))))]
         @ drawFPSLine (cv_width (fpsCanvas g)) (cv_height (fpsCanvas g)) (fpsArray (fst (renderLoop time g)))
         @ [Stroke]
         @ spec_readout (Math_round (Num ?fps))"
    unfolding drawFPSGraph_calls_def Let_def gridColumns_closed gridRows_closed drawTarget_spec
      targetFPS_def spec_background_def spec_grid_def spec_reference_line_def spec_readout_def
      renderLoop_canvas_size lst
    by simp
  have fin: "last (snd (renderLoop time g)) = RequestAnimationFrame"
    unfolding renderLoop_calls by simp
  have once: "count_list (snd (renderLoop time g)) RequestAnimationFrame = 1"
    unfolding renderLoop_calls by (simp add: count_list_Ctx count_list_draws)
  show ?thesis
    using e arr lst graph fin once renderLoop_calls [of time g] renderLoop_canvas [of time g]
      renderLoop_fields(1) [of time g]
    by (intro conjI)
qed

theorem tick_order_witness:
  "elapsedTimeSec 1016 (run (initial 800 600) [Frame 1000]) = 2 / 125
   \<and> lastTime (fst (renderLoop 1016 (run (initial 800 600) [Frame 1000]))) = 1016
   \<and> fpsArray (run (initial 800 600) [Frame 1000]) = [PosInf]
   \<and> fpsArray (fst (renderLoop 1016 (run (initial 800 600) [Frame 1000]))) = [PosInf, Fin (125 / 2)]
   \<and> snd (renderLoop 1016 (run (initial 800 600) [Frame 1000])) =
     map Ctx
       [ClearRect (Fin 0) (Fin 0) (Fin 200) (Fin 100),
        SetFillStyle ''rgba(0, 0, 0, 0.7)'',
        FillRect (Fin 0) (Fin 0) (Fin 200) (Fin 100),
        SetStrokeStyle ''rgba(255, 255, 255, 0.1)'',
        BeginPath,
        MoveTo (Fin 0) (Fin 0),
        LineTo (Fin 0) (Fin 100),
        MoveTo (Fin 20) (Fin 0),
        LineTo (Fin 20) (Fin 100),
        MoveTo (Fin 40) (Fin 0),
        LineTo (Fin 40) (Fin 100),
        MoveTo (Fin 60) (Fin 0),
        LineTo (Fin 60) (Fin 100),
        MoveTo (Fin 80) (Fin 0),
        LineTo (Fin 80) (Fin 100),
        MoveTo (Fin 100) (Fin 0),
        LineTo (Fin 100) (Fin 100),
        MoveTo (Fin 120) (Fin 0),
        LineTo (Fin 120) (Fin 100),
        MoveTo (Fin 140) (Fin 0),
        LineTo (Fin 140) (Fin 100),
        MoveTo (Fin 160) (Fin 0),
        LineTo (Fin 160) (Fin 100),
        MoveTo (Fin 180) (Fin 0),
        LineTo (Fin 180) (Fin 100),
        MoveTo (Fin 0) (Fin 0),
        LineTo (Fin 200) (Fin 0),
        MoveTo (Fin 0) (Fin 20),
        LineTo (Fin 200) (Fin 20),
        MoveTo (Fin 0) (Fin 40),
        LineTo (Fin 200) (Fin 40),
        MoveTo (Fin 0) (Fin 60),
        LineTo (Fin 200) (Fin 60),
        MoveTo (Fin 0) (Fin 80),
        LineTo (Fin 200) (Fin 80),
        Stroke,
        SetStrokeStyle ''rgba(255, 0, 0, 0.5)'',
        BeginPath,
        MoveTo (Fin 0) (Fin (3400 / 37)),
        LineTo (Fin 200) (Fin (3400 / 37)),
        Stroke,
        SetFillStyle ''rgb(255, 255, 255)'',
        SetFont ''8px monospace'',
        FillText [NumToString (Fin 30), Lit '' FPS''] (Fin 5) (Fin (3326 / 37)),
        SetStrokeStyle ''rgba(255, 0, 0, 0.5)'',
        BeginPath,
        MoveTo (Fin 0) (Fin (2800 / 37)),
        LineTo (Fin 200) (Fin (2800 / 37)),
        Stroke,
        SetFillStyle ''rgb(255, 255, 255)'',
        SetFont ''8px monospace'',
        FillText [NumToString (Fin 60), Lit '' FPS''] (Fin 5) (Fin (2726 / 37)),
        SetStrokeStyle ''rgba(255, 0, 0, 0.5)'',
        BeginPath,
        MoveTo (Fin 0) (Fin (1600 / 37)),
        LineTo (Fin 200) (Fin (1600 / 37)),
        Stroke,
        SetFillStyle ''rgb(255, 255, 255)'',
        SetFont ''8px monospace'',
        FillText [NumToString (Fin 120), Lit '' FPS''] (Fin 5) (Fin (1526 / 37)),
        SetStrokeStyle ''rgb(0, 255, 0)'',
        BeginPath,
        MoveTo (Fin 0) (Fin 100),
        LineTo (Fin 0) (Fin 0),
        LineTo (Fin 200) (Fin (2750 / 37)),
        Stroke,
        SetFillStyle ''rgb(255, 255, 255)'',
        SetFont ''10px monospace'',
        FillText [Lit ''Current: '', NumToString (Fin 63), Lit '' FPS''] (Fin 5) (Fin 10)]
     @
     [RendererClear,
      StateMachineAdvance (2 / 125),
      ArtboardAdvance (2 / 125),
      RendererSave,
      RendererAlign Contain Center 0 0 800 600,
      ArtboardDraw,
      RendererRestore,
      RendererFlush,
      ResolveAnimationFrame,
      RequestAnimationFrame]"
proof -
  let ?g = "run (initial 800 600) [Frame 1000]"
  have e: "elapsedTimeSec 1016 ?g = 2 / 125"
    by (simp add: run_frames elapsedTimeSec_def)
  have before: "fpsArray ?g = [PosInf]"
    by (simp add: run_frames elapsedTimeSec_def initial_def pushSample_def MAX_FPS_SAMPLES_def)
  have fps: "js_div (Fin 1) (Fin (2 / 125)) = Fin (125 / 2)"
    by simp
  have size: "cv_width (fpsCanvas ?g) = 200" "cv_height (fpsCanvas ?g) = 100"
    by (simp_all add: run_frames initial_def initFPSCanvas_def)
  have rest: "canvas_width ?g = 800" "canvas_height ?g = 600" "renderCount ?g = 1"
    by (simp_all add: run_frames initial_def)
  note t = tick_order [of 1016 ?g, unfolded e fps size rest before]
  have after: "fpsArray (fst (renderLoop 1016 ?g)) = [PosInf, Fin (125 / 2)]"
    using t by simp
  have line: "drawFPSLine 200 100 [PosInf, Fin (125 / 2)]
              = [LineTo (Fin 0) (Fin 0), LineTo (Fin 200) (Fin (2750 / 37))]"
    by (simp add: drawFPSLine_def drawSample_def minFPS_def maxFPS_def upt_conv_Cons)
  have cur: "spec_readout (Math_round (Num (Fin (125 / 2)))) =
     [SetFillStyle ''rgb(255, 255, 255)'',
      SetFont ''10px monospace'',
      FillText [Lit ''Current: '', NumToString (Fin 63), Lit '' FPS''] (Fin 5) (Fin 10)]"
    by (simp add: spec_readout_def)
  have graph: "drawFPSGraph_calls (fst (renderLoop 1016 ?g)) =
     [ClearRect (Fin 0) (Fin 0) (Fin 200) (Fin 100),
      SetFillStyle ''rgba(0, 0, 0, 0.7)'',
      FillRect (Fin 0) (Fin 0) (Fin 200) (Fin 100),
      SetStrokeStyle ''rgba(255, 255, 255, 0.1)'',
      BeginPath,
      MoveTo (Fin 0) (Fin 0),
      LineTo (Fin 0) (Fin 100),
      MoveTo (Fin 20) (Fin 0),
      LineTo (Fin 20) (Fin 100),
      MoveTo (Fin 40) (Fin 0),
      LineTo (Fin 40) (Fin 100),
      MoveTo (Fin 60) (Fin 0),
      LineTo (Fin 60) (Fin 100),
      MoveTo (Fin 80) (Fin 0),
      LineTo (Fin 80) (Fin 100),
      MoveTo (Fin 100) (Fin 0),
      LineTo (Fin 100) (Fin 100),
      MoveTo (Fin 120) (Fin 0),
      LineTo (Fin 120) (Fin 100),
      MoveTo (Fin 140) (Fin 0),
      LineTo (Fin 140) (Fin 100),
      MoveTo (Fin 160) (Fin 0),
      LineTo (Fin 160) (Fin 100),
      MoveTo (Fin 180) (Fin 0),
      LineTo (Fin 180) (Fin 100),
      MoveTo (Fin 0) (Fin 0),
      LineTo (Fin 200) (Fin 0),
      MoveTo (Fin 0) (Fin 20),
      LineTo (Fin 200) (Fin 20),
      MoveTo (Fin 0) (Fin 40),
      LineTo (Fin 200) (Fin 40),
      MoveTo (Fin 0) (Fin 60),
      LineTo (Fin 200) (Fin 60),
      MoveTo (Fin 0) (Fin 80),
      LineTo (Fin 200) (Fin 80),
      Stroke,
      SetStrokeStyle ''rgba(255, 0, 0, 0.5)'',
      BeginPath,
      MoveTo (Fin 0) (Fin (3400 / 37)),
      LineTo (Fin 200) (Fin (3400 / 37)),
      Stroke,
      SetFillStyle ''rgb(255, 255, 255)'',
      SetFont ''8px monospace'',
      FillText [NumToString (Fin 30), Lit '' FPS''] (Fin 5) (Fin (3326 / 37)),
      SetStrokeStyle ''rgba(255, 0, 0, 0.5)'',
      BeginPath,
      MoveTo (Fin 0) (Fin (2800 / 37)),
      LineTo (Fin 200) (Fin (2800 / 37)),
      Stroke,
      SetFillStyle ''rgb(255, 255, 255)'',
      SetFont ''8px monospace'',
      FillText [NumToString (Fin 60), Lit '' FPS''] (Fin 5) (Fin (2726 / 37)),
      SetStrokeStyle ''rgba(255, 0, 0, 0.5)'',
      BeginPath,
      MoveTo (Fin 0) (Fin (1600 / 37)),
      LineTo (Fin 200) (Fin (1600 / 37)),
      Stroke,
      SetFillStyle ''rgb(255, 255, 255)'',
      SetFont ''8px monospace'',
      FillText [NumToString (Fin 120), Lit '' FPS''] (Fin 5) (Fin (1526 / 37)),
      SetStrokeStyle ''rgb(0, 255, 0)'',
      BeginPath,
      MoveTo (Fin 0) (Fin 100),
      LineTo (Fin 0) (Fin 0),
      LineTo (Fin 200) (Fin (2750 / 37)),
      Stroke,
      SetFillStyle ''rgb(255, 255, 255)'',
      SetFont ''10px monospace'',
      FillText [Lit ''Current: '', NumToString (Fin 63), Lit '' FPS''] (Fin 5) (Fin 10)]"
    using t unfolding after steps_200_100 line cur by simp
  have trace: "snd (renderLoop 1016 ?g) =
     map Ctx (drawFPSGraph_calls (fst (renderLoop 1016 ?g)))
     @
     [RendererClear,
      StateMachineAdvance (2 / 125),
      ArtboardAdvance (2 / 125),
      RendererSave,
      RendererAlign Contain Center 0 0 800 600,
      ArtboardDraw,
      RendererRestore,
      RendererFlush,
      ResolveAnimationFrame,
      RequestAnimationFrame]"
    using t by simp
  have time: "lastTime (fst (renderLoop 1016 ?g)) = 1016"
    using t by simp
  have computed: "snd (renderLoop 1016 ?g) =
     map Ctx
       [ClearRect (Fin 0) (Fin 0) (Fin 200) (Fin 100),
        SetFillStyle ''rgba(0, 0, 0, 0.7)'',
        FillRect (Fin 0) (Fin 0) (Fin 200) (Fin 100),
        SetStrokeStyle ''rgba(255, 255, 255, 0.1)'',
        BeginPath,
        MoveTo (Fin 0) (Fin 0),
        LineTo (Fin 0) (Fin 100),
        MoveTo (Fin 20) (Fin 0),
        LineTo (Fin 20) (Fin 100),
        MoveTo (Fin 40) (Fin 0),
        LineTo (Fin 40) (Fin 100),
        MoveTo (Fin 60) (Fin 0),
        LineTo (Fin 60) (Fin 100),
        MoveTo (Fin 80) (Fin 0),
        LineTo (Fin 80) (Fin 100),
        MoveTo (Fin 100) (Fin 0),
        LineTo (Fin 100) (Fin 100),
        MoveTo (Fin 120) (Fin 0),
        LineTo (Fin 120) (Fin 100),
        MoveTo (Fin 140) (Fin 0),
        LineTo (Fin 140) (Fin 100),
        MoveTo (Fin 160) (Fin 0),
        LineTo (Fin 160) (Fin 100),
        MoveTo (Fin 180) (Fin 0),
        LineTo (Fin 180) (Fin 100),
        MoveTo (Fin 0) (Fin 0),
        LineTo (Fin 200) (Fin 0),
        MoveTo (Fin 0) (Fin 20),
        LineTo (Fin 200) (Fin 20),
        MoveTo (Fin 0) (Fin 40),
        LineTo (Fin 200) (Fin 40),
        MoveTo (Fin 0) (Fin 60),
        LineTo (Fin 200) (Fin 60),
        MoveTo (Fin 0) (Fin 80),
        LineTo (Fin 200) (Fin 80),
        Stroke,
        SetStrokeStyle ''rgba(255, 0, 0, 0.5)'',
        BeginPath,
        MoveTo (Fin 0) (Fin (3400 / 37)),
        LineTo (Fin 200) (Fin (3400 / 37)),
        Stroke,
        SetFillStyle ''rgb(255, 255, 255)'',
        SetFont ''8px monospace'',
        FillText [NumToString (Fin 30), Lit '' FPS''] (Fin 5) (Fin (3326 / 37)),
        SetStrokeStyle ''rgba(255, 0, 0, 0.5)'',
        BeginPath,
        MoveTo (Fin 0) (Fin (2800 / 37)),
        LineTo (Fin 200) (Fin (2800 / 37)),
        Stroke,
        SetFillStyle ''rgb(255, 255, 255)'',
        SetFont ''8px monospace'',
        FillText [NumToString (Fin 60), Lit '' FPS''] (Fin 5) (Fin (2726 / 37)),
        SetStrokeStyle ''rgba(255, 0, 0, 0.5)'',
        BeginPath,
        MoveTo (Fin 0) (Fin (1600 / 37)),
        LineTo (Fin 200) (Fin (1600 / 37)),
        Stroke,
        SetFillStyle ''rgb(255, 255, 255)'',
        SetFont ''8px monospace'',
        FillText [NumToString (Fin 120), Lit '' FPS''] (Fin 5) (Fin (1526 / 37)),
        SetStrokeStyle ''rgb(0, 255, 0)'',
        BeginPath,
        MoveTo (Fin 0) (Fin 100),
        LineTo (Fin 0) (Fin 0),
        LineTo (Fin 200) (Fin (2750 / 37)),
        Stroke,
        SetFillStyle ''rgb(255, 255, 255)'',
        SetFont ''10px monospace'',
        FillText [Lit ''Current: '', NumToString (Fin 63), Lit '' FPS''] (Fin 5) (Fin 10)]
     @
     [RendererClear,
      StateMachineAdvance (2 / 125),
      ArtboardAdvance (2 / 125),
      RendererSave,
      RendererAlign Contain Center 0 0 800 600,
      ArtboardDraw,
      RendererRestore,
      RendererFlush,
      ResolveAnimationFrame,
      RequestAnimationFrame]"
    unfolding renderLoop_def Let_def drawFPSGraph_calls_def
    by (simp add: e before size rest pushSample_def MAX_FPS_SAMPLES_def drawLoop.simps
          gridColumns.simps gridRows.simps targetFPS_def drawTarget_def minFPS_def
          maxFPS_def drawFPSLine_def drawSample_def js_index_def upt_conv_Cons Let_def)
  show ?thesis
    using e time before after trace [unfolded graph] computed by (intro conjI)
qed

end
